theory Spec2Isabelle
  imports Complex_Main
begin

section \<open>Errors\<close>

text \<open>
  Modelled from the spec: \<open>InterpreterBase.error\<close>, whose class is not among the sources,
  aborts the whole run at the point it is called, with an error kind and no recovery. The
  two kinds the interpreter passes to it are kept under their names. Every other way a run
  can stop is an exception of the host language (an attribute read on \<open>None\<close>, a division
  by zero, a failed tuple unpacking, ...): it is kept apart, with the name of the exception
  class. \<open>OUT_OF_FUEL\<close> is not an error of the program: it is the answer given when the
  recursion budget is used up before the run ends.
\<close>

datatype error = NAME_ERROR | TYPE_ERROR | PY_EXCEPTION string | OUT_OF_FUEL

section \<open>Dictionaries\<close>

text \<open>
  A Python \<open>dict\<close> keeps its keys in insertion order; storing under a key that is present
  keeps the key's place, storing under a new key appends.
\<close>

type_synonym ('k, 'x) dict = "('k \<times> 'x) list"

definition dict_get :: "('k, 'x) dict \<Rightarrow> 'k \<Rightarrow> 'x option" where
  "dict_get d k = map_of d k"

fun dict_set :: "('k, 'x) dict \<Rightarrow> 'k \<Rightarrow> 'x \<Rightarrow> ('k, 'x) dict" where
  "dict_set [] k x = [(k, x)]"
| "dict_set ((k', y) # d) k x =
     (if k' = k then (k', x) # d else (k', y) # dict_set d k x)"

definition dict_has :: "('k, 'x) dict \<Rightarrow> 'k \<Rightarrow> bool" where
  "dict_has d k = (dict_get d k \<noteq> None)"

section \<open>EnvironmentManager (env\_v4.py)\<close>

text \<open>
  \<open>self.environment\<close> is a list of dictionaries, the innermost scope last. The model is
  generic in what a name is bound to (the interpreter binds names to references to
  \<open>Value\<close> objects).
\<close>

type_synonym 'x env = "(string, 'x) dict list"

text \<open>\<open>get\<close>: the loop over \<open>reversed(self.environment)\<close>, here over the reversed list.\<close>

fun get_loop :: "'x env \<Rightarrow> string \<Rightarrow> 'x option" where
  "get_loop [] symbol = None"
| "get_loop (e # es) symbol =
     (if dict_has e symbol then dict_get e symbol else get_loop es symbol)"

definition env_get :: "'x env \<Rightarrow> string \<Rightarrow> 'x option" where
  "env_get environment symbol = get_loop (rev environment) symbol"

text \<open>
  \<open>self.environment[-1][symbol] = value\<close>; on an empty list the index raises
  \<open>IndexError\<close>.
\<close>

definition set_innermost :: "'x env \<Rightarrow> string \<Rightarrow> 'x \<Rightarrow> error + 'x env" where
  "set_innermost environment symbol x =
     (case rev environment of
        [] \<Rightarrow> Inl (PY_EXCEPTION ''IndexError'')
      | e # es \<Rightarrow> Inr (rev (dict_set e symbol x # es)))"

text \<open>The loop of \<open>set\<close> over the reversed list; \<open>None\<close> when it falls through.\<close>

fun set_loop :: "'x env \<Rightarrow> string \<Rightarrow> 'x \<Rightarrow> 'x env option" where
  "set_loop [] symbol x = None"
| "set_loop (e # es) symbol x =
     (if dict_has e symbol then Some (dict_set e symbol x # es)
      else map_option ((#) e) (set_loop es symbol x))"

definition env_set :: "'x env \<Rightarrow> string \<Rightarrow> 'x \<Rightarrow> bool \<Rightarrow> error + 'x env" where
  "env_set environment symbol x force_new_var_creation =
     (if force_new_var_creation then set_innermost environment symbol x
      else case set_loop (rev environment) symbol x of
             Some es \<Rightarrow> Inr (rev es)
           | None \<Rightarrow> set_innermost environment symbol x)"

definition env_create :: "'x env \<Rightarrow> string \<Rightarrow> 'x \<Rightarrow> error + 'x env" where
  "env_create environment symbol x = set_innermost environment symbol x"

definition env_push :: "'x env \<Rightarrow> (string, 'x) dict option \<Rightarrow> 'x env" where
  "env_push environment env =
     (case env of None \<Rightarrow> environment @ [[]] | Some e \<Rightarrow> environment @ [e])"

definition env_pop :: "'x env \<Rightarrow> error + 'x env" where
  "env_pop environment =
     (if environment = [] then Inl (PY_EXCEPTION ''IndexError'')
      else Inr (butlast environment))"

text \<open>
  \<open>__enumerate\<close>: every visible variable once, innermost binding first. The generator's
  \<open>captured_so_far\<close> is the list of names already yielded.
\<close>

fun enumerate_scope ::
  "(string, 'x) dict \<Rightarrow> string list \<Rightarrow> (string \<times> 'x) list \<times> string list" where
  "enumerate_scope [] captured_so_far = ([], captured_so_far)"
| "enumerate_scope ((var_name, x) # rest) captured_so_far =
     (if var_name \<in> set captured_so_far then enumerate_scope rest captured_so_far
      else (case enumerate_scope rest (captured_so_far @ [var_name]) of
              (ys, seen) \<Rightarrow> ((var_name, x) # ys, seen)))"

fun enumerate_loop :: "'x env \<Rightarrow> string list \<Rightarrow> (string \<times> 'x) list" where
  "enumerate_loop [] captured_so_far = []"
| "enumerate_loop (captured # es) captured_so_far =
     (case enumerate_scope captured captured_so_far of
        (ys, seen) \<Rightarrow> ys @ enumerate_loop es seen)"

definition env_enumerate :: "'x env \<Rightarrow> (string \<times> 'x) list" where
  "env_enumerate environment = enumerate_loop (rev environment) []"

section \<open>Values (type\_valuev4.py)\<close>

text \<open>The enumeration \<open>Type\<close>; its members carry a \<open>T\<close> in front, \<open>INT\<close> being taken.\<close>

datatype Type = TINT | TBOOL | TSTRING | TCLOSURE | TNIL | TOBJECT

text \<open>
  What \<open>Value.v\<close> holds: a host integer, boolean or string, \<open>None\<close>, or a reference to
  an \<open>Object\<close> or to a \<open>Closure\<close> on the heap (an index into the heap's list of objects or
  of closures).
\<close>

datatype payload = PInt int | PBool bool | PStr string | PNone | PObj nat | PClo nat

record Value =
  val_t :: Type
  val_v :: payload

text \<open>The payload that goes with a type tag, for stating that a value is well formed.\<close>

fun type_of_payload :: "payload \<Rightarrow> Type" where
  "type_of_payload (PInt i) = TINT"
| "type_of_payload (PBool b) = TBOOL"
| "type_of_payload (PStr s) = TSTRING"
| "type_of_payload PNone = TNIL"
| "type_of_payload (PObj a) = TOBJECT"
| "type_of_payload (PClo a) = TCLOSURE"

definition mk_value :: "payload \<Rightarrow> Value" where
  "mk_value p = \<lparr>val_t = type_of_payload p, val_v = p\<rparr>"

text \<open>
  The host's \<open>==\<close> on payloads. A host boolean is an integer (\<open>True == 1\<close>); \<open>Object\<close> and
  \<open>Closure\<close> define no \<open>__eq__\<close>, so they are equal only to themselves; anything else of
  different kinds is unequal.
\<close>

fun py_eq :: "payload \<Rightarrow> payload \<Rightarrow> bool" where
  "py_eq (PInt a) (PInt b) = (a = b)"
| "py_eq (PInt a) (PBool b) = (a = (if b then 1 else 0))"
| "py_eq (PBool a) (PInt b) = ((if a then 1 else 0) = b)"
| "py_eq (PBool a) (PBool b) = (a = b)"
| "py_eq (PStr a) (PStr b) = (a = b)"
| "py_eq PNone PNone = True"
| "py_eq (PObj a) (PObj b) = (a = b)"
| "py_eq (PClo a) (PClo b) = (a = b)"
| "py_eq _ _ = False"

text \<open>
  The host's \<open>is\<close> on payloads, as \<open>__eval_op\<close> uses it: there one of the two operands
  has type \<open>OBJECT\<close>. Identity of two host integers or strings depends on the host's
  caching and is not needed; the model answers \<open>False\<close> for them.
\<close>

fun py_is :: "payload \<Rightarrow> payload \<Rightarrow> bool" where
  "py_is (PObj a) (PObj b) = (a = b)"
| "py_is (PClo a) (PClo b) = (a = b)"
| "py_is PNone PNone = True"
| "py_is (PBool a) (PBool b) = (a = b)"
| "py_is _ _ = False"

text \<open>Truthiness, for \<open>x and y\<close>, \<open>x or y\<close>, \<open>1 if x else 0\<close> and \<open>while x\<close>.\<close>

fun truthy :: "payload \<Rightarrow> bool" where
  "truthy (PInt i) = (i \<noteq> 0)"
| "truthy (PBool b) = b"
| "truthy (PStr s) = (s \<noteq> [])"
| "truthy PNone = False"
| "truthy (PObj a) = True"
| "truthy (PClo a) = True"

text \<open>A payload the host can do integer arithmetic with.\<close>

fun as_int :: "payload \<Rightarrow> int option" where
  "as_int (PInt i) = Some i"
| "as_int (PBool b) = Some (if b then 1 else 0)"
| "as_int _ = None"

section \<open>Operators (interpreterv4.py, \<open>__setup_ops\<close> and \<open>__eval_op\<close>)\<close>

datatype binop = Add | Sub | Mul | Div | Eq | Neq | Gt | Ge | Lt | Le | Or | And

text \<open>
  The lambdas of the table on the payloads. \<open>+\<close> is the host's: integer addition or string
  concatenation. \<open>//\<close> is the host's flooring division and raises on a zero divisor.
  Operand kinds the host's operator does not accept raise its \<open>TypeError\<close>.
\<close>

fun py_add :: "payload \<Rightarrow> payload \<Rightarrow> error + payload" where
  "py_add (PStr a) (PStr b) = Inr (PStr (a @ b))"
| "py_add x y =
     (case (as_int x, as_int y) of
        (Some a, Some b) \<Rightarrow> Inr (PInt (a + b))
      | _ \<Rightarrow> Inl (PY_EXCEPTION ''TypeError''))"

definition py_arith :: "(int \<Rightarrow> int \<Rightarrow> int) \<Rightarrow> payload \<Rightarrow> payload \<Rightarrow> error + payload" where
  "py_arith f x y =
     (case (as_int x, as_int y) of
        (Some a, Some b) \<Rightarrow> Inr (PInt (f a b))
      | _ \<Rightarrow> Inl (PY_EXCEPTION ''TypeError''))"

definition py_floordiv :: "payload \<Rightarrow> payload \<Rightarrow> error + payload" where
  "py_floordiv x y =
     (case (as_int x, as_int y) of
        (Some a, Some b) \<Rightarrow>
          if b = 0 then Inl (PY_EXCEPTION ''ZeroDivisionError'') else Inr (PInt (a div b))
      | _ \<Rightarrow> Inl (PY_EXCEPTION ''TypeError''))"

definition py_compare :: "(int \<Rightarrow> int \<Rightarrow> bool) \<Rightarrow> payload \<Rightarrow> payload \<Rightarrow> error + payload" where
  "py_compare f x y =
     (case (as_int x, as_int y) of
        (Some a, Some b) \<Rightarrow> Inr (PBool (f a b))
      | _ \<Rightarrow> Inl (PY_EXCEPTION ''TypeError''))"

definition py_and :: "payload \<Rightarrow> payload \<Rightarrow> payload" where
  "py_and x y = (if truthy x then y else x)"

definition py_or :: "payload \<Rightarrow> payload \<Rightarrow> payload" where
  "py_or x y = (if truthy x then x else y)"

text \<open>\<open>Value(ty, p)\<close> around the result of a host operator that may raise.\<close>

definition wrap :: "Type \<Rightarrow> error + payload \<Rightarrow> error + Value" where
  "wrap ty r = (case r of Inl e \<Rightarrow> Inl e | Inr p \<Rightarrow> Inr \<lparr>val_t = ty, val_v = p\<rparr>)"

text \<open>
  \<open>self.op_to_lambda[ty]\<close>: \<open>None\<close> where the operator is not a key of the type's table.
  The lambdas for \<open>==\<close> and \<open>!=\<close> are the same in every table and are named once.
  The table of \<open>Type.OBJECT\<close> is never consulted: \<open>__eval_op\<close> treats operands of that
  type before it looks an operator up, and promotion never yields that type.
\<close>

definition eq_lambda :: "Value \<Rightarrow> Value \<Rightarrow> error + Value" where
  "eq_lambda x y = Inr \<lparr>val_t = TBOOL, val_v = PBool (py_eq (val_v x) (val_v y))\<rparr>"

definition neq_lambda :: "Value \<Rightarrow> Value \<Rightarrow> error + Value" where
  "neq_lambda x y = Inr \<lparr>val_t = TBOOL, val_v = PBool (\<not> py_eq (val_v x) (val_v y))\<rparr>"

definition op_to_lambda :: "Type \<Rightarrow> binop \<Rightarrow> (Value \<Rightarrow> Value \<Rightarrow> error + Value) option" where
  "op_to_lambda ty oper =
     (case ty of
        TINT \<Rightarrow>
          (case oper of
             Add \<Rightarrow> Some (\<lambda>x y. wrap (val_t x) (py_add (val_v x) (val_v y)))
           | Sub \<Rightarrow> Some (\<lambda>x y. wrap (val_t x) (py_arith (-) (val_v x) (val_v y)))
           | Mul \<Rightarrow> Some (\<lambda>x y. wrap (val_t x) (py_arith (*) (val_v x) (val_v y)))
           | Div \<Rightarrow> Some (\<lambda>x y. wrap (val_t x) (py_floordiv (val_v x) (val_v y)))
           | Eq \<Rightarrow> Some eq_lambda
           | Neq \<Rightarrow> Some neq_lambda
           | Lt \<Rightarrow> Some (\<lambda>x y. wrap TBOOL (py_compare (<) (val_v x) (val_v y)))
           | Le \<Rightarrow> Some (\<lambda>x y. wrap TBOOL (py_compare (\<le>) (val_v x) (val_v y)))
           | Gt \<Rightarrow> Some (\<lambda>x y. wrap TBOOL (py_compare (>) (val_v x) (val_v y)))
           | Ge \<Rightarrow> Some (\<lambda>x y. wrap TBOOL (py_compare (\<ge>) (val_v x) (val_v y)))
           | _ \<Rightarrow> None)
      | TSTRING \<Rightarrow>
          (case oper of
             Add \<Rightarrow> Some (\<lambda>x y. wrap (val_t x) (py_add (val_v x) (val_v y)))
           | Eq \<Rightarrow> Some eq_lambda
           | Neq \<Rightarrow> Some neq_lambda
           | _ \<Rightarrow> None)
      | TBOOL \<Rightarrow>
          (case oper of
             And \<Rightarrow> Some (\<lambda>x y. Inr \<lparr>val_t = val_t x, val_v = py_and (val_v x) (val_v y)\<rparr>)
           | Or \<Rightarrow> Some (\<lambda>x y. Inr \<lparr>val_t = val_t x, val_v = py_or (val_v x) (val_v y)\<rparr>)
           | Eq \<Rightarrow> Some eq_lambda
           | Neq \<Rightarrow> Some neq_lambda
           | _ \<Rightarrow> None)
      | TNIL \<Rightarrow> (case oper of Eq \<Rightarrow> Some eq_lambda | Neq \<Rightarrow> Some neq_lambda | _ \<Rightarrow> None)
      | TCLOSURE \<Rightarrow> (case oper of Eq \<Rightarrow> Some eq_lambda | Neq \<Rightarrow> Some neq_lambda | _ \<Rightarrow> None)
      | TOBJECT \<Rightarrow> None)"

definition int_to_bool :: "Value \<Rightarrow> Value" where
  "int_to_bool x = \<lparr>val_t = TBOOL, val_v = PBool (\<not> py_eq (val_v x) (PInt 0))\<rparr>"

definition bool_to_int :: "Value \<Rightarrow> Value" where
  "bool_to_int x = \<lparr>val_t = TINT, val_v = PInt (if truthy (val_v x) then 1 else 0)\<rparr>"

definition bin_op_promotion :: "binop \<Rightarrow> Value \<Rightarrow> Value \<Rightarrow> Value \<times> Value" where
  "bin_op_promotion operation op1 op2 =
     (let (op1, op2) =
        (if op_to_lambda TBOOL operation \<noteq> None then
           (if op_to_lambda TINT operation \<noteq> None \<and> val_t op1 = TINT \<and> val_t op2 = TINT
            then (op1, op2)
            else (if val_t op1 = TINT then int_to_bool op1 else op1,
                  if val_t op2 = TINT then int_to_bool op2 else op2))
         else (op1, op2))
      in if op_to_lambda TINT operation \<noteq> None then
           (if val_t op1 = TBOOL then bool_to_int op1 else op1,
            if val_t op2 = TBOOL then bool_to_int op2 else op2)
         else (op1, op2))"

definition unary_op_promotion :: "bool \<Rightarrow> Value \<Rightarrow> Value" where
  "unary_op_promotion is_not op1 =
     (if is_not \<and> val_t op1 = TINT then int_to_bool op1 else op1)"

definition compatible_types :: "binop \<Rightarrow> Value \<Rightarrow> Value \<Rightarrow> bool" where
  "compatible_types oper obj1 obj2 =
     (if oper = Eq \<or> oper = Neq then True else val_t obj1 = val_t obj2)"

text \<open>
  \<open>__eval_op\<close> once both operands are evaluated: the part of the method that works on the
  two \<open>Value\<close>s and builds the result.
\<close>

definition eval_op_values :: "binop \<Rightarrow> Value \<Rightarrow> Value \<Rightarrow> error + Value" where
  "eval_op_values oper left_value_obj right_value_obj =
     (if val_t left_value_obj = TOBJECT \<or> val_t right_value_obj = TOBJECT then
        (if oper \<noteq> Eq \<and> oper \<noteq> Neq then Inl TYPE_ERROR
         else (let are_equal = py_is (val_v left_value_obj) (val_v right_value_obj)
               in Inr \<lparr>val_t = TBOOL,
                        val_v = PBool (if oper = Eq then are_equal else \<not> are_equal)\<rparr>))
      else (case bin_op_promotion oper left_value_obj right_value_obj of
              (l, r) \<Rightarrow>
                if \<not> compatible_types oper l r then Inl TYPE_ERROR
                else (case op_to_lambda (val_t l) oper of
                        None \<Rightarrow> Inl TYPE_ERROR
                      | Some f \<Rightarrow> f l r)))"

section \<open>Abstract syntax\<close>

text \<open>
  Modelled from the spec: the parser and the class of its tree elements are not among the
  sources; the trees are taken as the interpreter reads them. An element's \<open>elem_type\<close>
  is the constructor, the entries of its dictionary that the interpreter reads with \<open>get\<close>
  are the constructor's arguments. A formal parameter is a by-value \<open>arg\<close> or a
  by-reference \<open>refarg\<close>.
\<close>

datatype formal = Arg string | Refarg string

fun formal_name :: "formal \<Rightarrow> string" where
  "formal_name (Arg a) = a"
| "formal_name (Refarg a) = a"

fun is_refarg :: "formal \<Rightarrow> bool" where
  "is_refarg (Arg a) = False"
| "is_refarg (Refarg a) = True"

datatype expr =
    ENil
  | EInt int
  | EString string
  | EBool bool
  | EVar string
  | EFcall string "expr list"
  | EBinop binop expr expr
  | ENeg expr
  | ENot expr
  | ELambda "formal list" "stmt list"
  | EObj
  | EMcall string string "expr list"
and stmt =
    SFcall string "expr list"
  | SAssign string expr
  | SMcall string string "expr list"
  | SReturn "expr option"
  | SIf expr "stmt list" "stmt list option"
  | SWhile expr "stmt list"

text \<open>What a closure keeps of a function definition or a lambda: its \<open>func_ast\<close>.\<close>

record func_ast =
  ast_args :: "formal list"
  ast_statements :: "stmt list"

record func_def =
  def_name :: string
  def_args :: "formal list"
  def_statements :: "stmt list"

section \<open>The heap\<close>

text \<open>
  \<open>Value\<close>, \<open>Object\<close> and \<open>Closure\<close> instances are mutable and shared by reference:
  two variables, a captured variable and a by-reference parameter can hold the very same
  \<open>Value\<close>. The model keeps each class in a list and uses the index as the reference. A
  dictionary of the program (a scope, an object's fields, a closure's captured variables)
  maps a name to the reference of a \<open>Value\<close>.
\<close>

record Object =
  obj_values :: "(string, nat) dict"
  obj_type :: Type
  obj_proto :: "nat option"

record Closure =
  clo_captured_env :: "(string, nat) dict"
  clo_func_ast :: func_ast
  clo_type :: Type

record heap =
  vals :: "Value list"
  objs :: "Object list"
  clos :: "Closure list"

definition new_value :: "Value \<Rightarrow> heap \<Rightarrow> nat \<times> heap" where
  "new_value x h = (length (vals h), h\<lparr>vals := vals h @ [x]\<rparr>)"

definition new_object :: "Object \<Rightarrow> heap \<Rightarrow> nat \<times> heap" where
  "new_object x h = (length (objs h), h\<lparr>objs := objs h @ [x]\<rparr>)"

definition new_closure :: "Closure \<Rightarrow> heap \<Rightarrow> nat \<times> heap" where
  "new_closure x h = (length (clos h), h\<lparr>clos := clos h @ [x]\<rparr>)"

text \<open>\<open>Object()\<close>: no fields, no prototype.\<close>

definition empty_object :: Object where
  "empty_object = \<lparr>obj_values = [], obj_type = TOBJECT, obj_proto = None\<rparr>"

text \<open>
  Modelled from the spec: the constant \<open>InterpreterBase.NIL_DEF\<close> is not among the sources;
  it is the keyword of the language for nil, a string (the interpreter compares it with an
  element's \<open>elem_type\<close>).
\<close>

definition NIL_DEF :: string where
  "NIL_DEF = ''nil''"

text \<open>
  \<open>create_value(InterpreterBase.NIL_DEF)\<close>: the function tests \<open>isinstance(val, str)\<close>
  before it compares \<open>val\<close> with \<open>NIL_DEF\<close>, so what it builds for the keyword is a
  \<open>Value\<close> of type \<open>STRING\<close> that holds the keyword.
\<close>

definition create_value_nil :: Value where
  "create_value_nil = \<lparr>val_t = TSTRING, val_v = PStr NIL_DEF\<rparr>"

text \<open>
  \<open>Interpreter.NIL_VALUE\<close> is one shared \<open>Value\<close>, made by \<open>create_value\<close> when the class
  is made: reference 0.
\<close>

definition NIL_VALUE :: nat where
  "NIL_VALUE = 0"

definition initial_heap :: heap where
  "initial_heap = \<lparr>vals = [create_value_nil], objs = [], clos = []\<rparr>"

section \<open>copy.copy and copy.deepcopy\<close>

text \<open>\<open>copy.copy\<close> of a \<open>Value\<close>: a new \<open>Value\<close> with the same \<open>t\<close> and the same \<open>v\<close>.\<close>

definition copy_value :: "nat \<Rightarrow> heap \<Rightarrow> nat \<times> heap" where
  "copy_value a h = new_value (vals h ! a) h"

text \<open>
  \<open>copy.deepcopy\<close> copies everything reachable. None of the three classes defines
  \<open>__deepcopy__\<close>, so the host makes the new instance first, records it in its memo under
  the original, then copies the attributes in the order they were set (\<open>t, v\<close>;
  \<open>values, type, proto\<close>; \<open>captured_env, func_ast, type\<close>) and stores them in the new
  instance. An original met again in the same call (sharing, a cycle) yields the copy
  recorded in the memo. Integers, booleans, strings, \<open>None\<close> and members of an \<open>Enum\<close>
  are returned as they are. The syntax tree of a closure has no identity in this model,
  so its copy is the tree itself.
\<close>

record memo =
  memo_vals :: "(nat, nat) dict"
  memo_objs :: "(nat, nat) dict"
  memo_clos :: "(nat, nat) dict"

definition empty_memo :: memo where
  "empty_memo = \<lparr>memo_vals = [], memo_objs = [], memo_clos = []\<rparr>"

type_synonym 'a copier = "memo \<Rightarrow> heap \<Rightarrow> error + ('a \<times> memo \<times> heap)"

text \<open>
  The copiers of a dictionary, of a \<open>proto\<close> attribute and of a payload, given the copier
  \<open>rec\<close> of a \<open>Value\<close> they call for what they contain.
\<close>

fun deepcopy_dict :: "(nat \<Rightarrow> nat copier) \<Rightarrow> (string, nat) dict \<Rightarrow> (string, nat) dict copier" where
  "deepcopy_dict rec [] m h = Inr ([], m, h)"
| "deepcopy_dict rec ((k, a) # d) m h =
     (case rec a m h of
        Inl e \<Rightarrow> Inl e
      | Inr (a', m1, h1) \<Rightarrow>
          (case deepcopy_dict rec d m1 h1 of
             Inl e \<Rightarrow> Inl e
           | Inr (d', m2, h2) \<Rightarrow> Inr ((k, a') # d', m2, h2)))"

fun deepcopy_proto :: "(nat \<Rightarrow> nat copier) \<Rightarrow> nat option \<Rightarrow> nat option copier" where
  "deepcopy_proto rec None m h = Inr (None, m, h)"
| "deepcopy_proto rec (Some a) m h =
     (case rec a m h of
        Inl e \<Rightarrow> Inl e
      | Inr (a', m1, h1) \<Rightarrow> Inr (Some a', m1, h1))"

definition deepcopy_object :: "(nat \<Rightarrow> nat copier) \<Rightarrow> nat \<Rightarrow> nat copier" where
  "deepcopy_object rec a m h =
     (case dict_get (memo_objs m) a of
        Some a' \<Rightarrow> Inr (a', m, h)
      | None \<Rightarrow>
          (case new_object (objs h ! a) h of
             (a', h1) \<Rightarrow>
               (case deepcopy_dict rec (obj_values (objs h ! a))
                       (m\<lparr>memo_objs := dict_set (memo_objs m) a a'\<rparr>) h1 of
                  Inl e \<Rightarrow> Inl e
                | Inr (d, m2, h2) \<Rightarrow>
                    (case deepcopy_proto rec (obj_proto (objs h ! a)) m2 h2 of
                       Inl e \<Rightarrow> Inl e
                     | Inr (pr, m3, h3) \<Rightarrow>
                         Inr (a', m3,
                              h3\<lparr>objs := (objs h3)[a' :=
                                \<lparr>obj_values = d, obj_type = obj_type (objs h ! a),
                                 obj_proto = pr\<rparr>]\<rparr>)))))"

definition deepcopy_closure :: "(nat \<Rightarrow> nat copier) \<Rightarrow> nat \<Rightarrow> nat copier" where
  "deepcopy_closure rec a m h =
     (case dict_get (memo_clos m) a of
        Some a' \<Rightarrow> Inr (a', m, h)
      | None \<Rightarrow>
          (case new_closure (clos h ! a) h of
             (a', h1) \<Rightarrow>
               (case deepcopy_dict rec (clo_captured_env (clos h ! a))
                       (m\<lparr>memo_clos := dict_set (memo_clos m) a a'\<rparr>) h1 of
                  Inl e \<Rightarrow> Inl e
                | Inr (d, m2, h2) \<Rightarrow>
                    Inr (a', m2,
                         h2\<lparr>clos := (clos h2)[a' :=
                           \<lparr>clo_captured_env = d, clo_func_ast = clo_func_ast (clos h ! a),
                            clo_type = clo_type (clos h ! a)\<rparr>]\<rparr>))))"

definition deepcopy_payload :: "(nat \<Rightarrow> nat copier) \<Rightarrow> payload \<Rightarrow> payload copier" where
  "deepcopy_payload rec p m h =
     (case p of
        PObj a \<Rightarrow>
          (case deepcopy_object rec a m h of
             Inl e \<Rightarrow> Inl e
           | Inr (a', m1, h1) \<Rightarrow> Inr (PObj a', m1, h1))
      | PClo a \<Rightarrow>
          (case deepcopy_closure rec a m h of
             Inl e \<Rightarrow> Inl e
           | Inr (a', m1, h1) \<Rightarrow> Inr (PClo a', m1, h1))
      | _ \<Rightarrow> Inr (p, m, h))"

text \<open>One \<open>Value\<close>, given the copier \<open>rec\<close> for the values below it.\<close>

definition deepcopy_value_step :: "(nat \<Rightarrow> nat copier) \<Rightarrow> nat \<Rightarrow> nat copier" where
  "deepcopy_value_step rec a m h =
     (case dict_get (memo_vals m) a of
        Some a' \<Rightarrow> Inr (a', m, h)
      | None \<Rightarrow>
          (case new_value (vals h ! a) h of
             (a', h1) \<Rightarrow>
               (case deepcopy_payload rec (val_v (vals h ! a))
                       (m\<lparr>memo_vals := dict_set (memo_vals m) a a'\<rparr>) h1 of
                  Inl e \<Rightarrow> Inl e
                | Inr (p, m2, h2) \<Rightarrow>
                    Inr (a', m2,
                         h2\<lparr>vals := (vals h2)[a' :=
                           \<lparr>val_t = val_t (vals h ! a), val_v = p\<rparr>]\<rparr>))))"

text \<open>The recursion: a \<open>Value\<close> nested \<open>n\<close> deep at most is copied with budget \<open>n\<close>.\<close>

primrec deepcopy_value :: "nat \<Rightarrow> nat \<Rightarrow> nat copier" where
  "deepcopy_value 0 = (\<lambda>a m h. Inl OUT_OF_FUEL)"
| "deepcopy_value (Suc n) = deepcopy_value_step (deepcopy_value n)"

text \<open>\<open>copy.deepcopy(x)\<close> from the interpreter: a call with a new, empty memo.\<close>

definition deepcopy :: "nat \<Rightarrow> nat \<Rightarrow> heap \<Rightarrow> error + (nat \<times> heap)" where
  "deepcopy n a h =
     (case deepcopy_value n a empty_memo h of
        Inl e \<Rightarrow> Inl e
      | Inr (a', m, h') \<Rightarrow> Inr (a', h'))"

section \<open>Host strings and the I/O shim\<close>

text \<open>\<open>s.split(c)\<close> for a separator of one character.\<close>

fun split_on :: "char \<Rightarrow> string \<Rightarrow> string list" where
  "split_on c [] = [[]]"
| "split_on c (x # xs) =
     (if x = c then [] # split_on c xs
      else (case split_on c xs of [] \<Rightarrow> [[x]] | w # ws \<Rightarrow> (x # w) # ws))"

text \<open>
  \<open>var_name, field = var_name.split('.')\<close>: the unpacking raises \<open>ValueError\<close> unless the
  name has exactly one dot.
\<close>

definition split_name :: "string \<Rightarrow> error + (string \<times> string)" where
  "split_name var_name =
     (case split_on (CHR ''.'') var_name of
        [a, b] \<Rightarrow> Inr (a, b)
      | _ \<Rightarrow> Inl (PY_EXCEPTION ''ValueError''))"

text \<open>\<open>str(i)\<close> for an integer.\<close>

fun str_nat :: "nat \<Rightarrow> string" where
  "str_nat n =
     (if n < 10 then [char_of (48 + n)] else str_nat (n div 10) @ [char_of (48 + n mod 10)])"

declare str_nat.simps [simp del]

definition str_int :: "int \<Rightarrow> string" where
  "str_int i = (if i < 0 then CHR ''-'' # str_nat (nat (- i)) else str_nat (nat i))"

text \<open>
  \<open>int(s)\<close> for a line of input: an optional sign and decimal digits. The host accepts more
  (blanks around the number, underscores between digits); those lines are not modelled and
  count as malformed here.
\<close>

fun digits_value :: "string \<Rightarrow> nat \<Rightarrow> nat option" where
  "digits_value [] acc = Some acc"
| "digits_value (c # cs) acc =
     (if (48::nat) \<le> of_char c \<and> (of_char c :: nat) \<le> 57
      then digits_value cs (10 * acc + (of_char c - 48)) else None)"

definition py_int :: "string \<Rightarrow> int option" where
  "py_int s =
     (case s of
        [] \<Rightarrow> None
      | c # cs \<Rightarrow>
          if c = CHR ''-'' then (if cs = [] then None
                                else map_option (\<lambda>n. - int n) (digits_value cs 0))
          else if c = CHR ''+'' then (if cs = [] then None
                                     else map_option int (digits_value cs 0))
          else map_option int (digits_value s 0))"

text \<open>
  \<open>get_printable\<close>: \<open>None\<close> stands for a result that is not a string (the function's own
  \<open>None\<close>, or a payload that is not a string under the tag \<open>STRING\<close>). Under the tag \<open>INT\<close>
  the payload is a host integer in every value the interpreter builds; \<open>str\<close> of the other
  payloads is given where the host fixes it.
\<close>

definition get_printable :: "Value \<Rightarrow> string option" where
  "get_printable val =
     (case val_t val of
        TINT \<Rightarrow>
          (case val_v val of
             PInt i \<Rightarrow> Some (str_int i)
           | PBool b \<Rightarrow> Some (if b then ''True'' else ''False'')
           | PStr s \<Rightarrow> Some s
           | PNone \<Rightarrow> Some ''None''
           | _ \<Rightarrow> None)
      | TSTRING \<Rightarrow> (case val_v val of PStr s \<Rightarrow> Some s | _ \<Rightarrow> None)
      | TBOOL \<Rightarrow> Some (if val_v val = PBool True then ''true'' else ''false'')
      | _ \<Rightarrow> None)"

section \<open>Interpreter state\<close>

datatype ExecStatus = CONTINUE | RETURN

text \<open>\<open>self.func_name_to_ast\<close>: function name to number of parameters to closure.\<close>

type_synonym ftable = "(string, (nat, nat) dict) dict"

text \<open>
  Modelled from the spec: \<open>output(text)\<close> appends to a sink and \<open>getInput()\<close> reads one
  line from a source; the base class that provides the two is not among the sources. The
  sink is the list of what was written (\<open>None\<close> for a value that is not a string), the
  source a list of lines, and \<open>None\<close> is read when it is used up. The state of a run is the
  scopes of \<open>self.env\<close>, the heap, and these two.
\<close>

record state =
  environment :: "nat env"
  st_heap :: heap
  st_output :: "string option list"
  st_input :: "string list"

text \<open>A step that may raise, and the sequencing of two of them.\<close>

type_synonym 'a result = "error + ('a \<times> state)"

definition bindE :: "'a result \<Rightarrow> ('a \<Rightarrow> state \<Rightarrow> error + 'b) \<Rightarrow> error + 'b" where
  "bindE m f = (case m of Inl e \<Rightarrow> Inl e | Inr (a, st) \<Rightarrow> f a st)"

definition alloc_value :: "Value \<Rightarrow> state \<Rightarrow> nat result" where
  "alloc_value x st =
     (case new_value x (st_heap st) of (a, h) \<Rightarrow> Inr (a, st\<lparr>st_heap := h\<rparr>))"

definition pop_scope :: "state \<Rightarrow> error + state" where
  "pop_scope st =
     (case env_pop (environment st) of
        Inl e \<Rightarrow> Inl e
      | Inr es \<Rightarrow> Inr (st\<lparr>environment := es\<rparr>))"

definition push_scope :: "(string, nat) dict option \<Rightarrow> state \<Rightarrow> state" where
  "push_scope env st = st\<lparr>environment := env_push (environment st) env\<rparr>"

text \<open>The two recursive entry points, as the other methods receive them.\<close>

type_synonym evaluator = "expr \<Rightarrow> state \<Rightarrow> nat result"
type_synonym runner = "stmt list \<Rightarrow> state \<Rightarrow> (ExecStatus \<times> nat) result"

section \<open>Closures and the function table\<close>

text \<open>
  \<open>Closure.__init__\<close>: every visible variable is captured, a primitive as a deep copy,
  anything else as the same \<open>Value\<close>.
\<close>

fun capture_loop ::
  "nat \<Rightarrow> (string \<times> nat) list \<Rightarrow> (string, nat) dict \<Rightarrow> heap \<Rightarrow> error + ((string, nat) dict \<times> heap)"
where
  "capture_loop n [] captured_env h = Inr (captured_env, h)"
| "capture_loop n ((var_name, a) # rest) captured_env h =
     (if val_t (vals h ! a) \<in> {TINT, TBOOL, TSTRING, TNIL} then
        (case deepcopy n a h of
           Inl e \<Rightarrow> Inl e
         | Inr (a', h') \<Rightarrow> capture_loop n rest (dict_set captured_env var_name a') h')
      else capture_loop n rest (dict_set captured_env var_name a) h)"

definition closure_init :: "nat \<Rightarrow> func_ast \<Rightarrow> nat env \<Rightarrow> heap \<Rightarrow> error + (nat \<times> heap)" where
  "closure_init n ast env h =
     (case capture_loop n (env_enumerate env) [] h of
        Inl e \<Rightarrow> Inl e
      | Inr (captured, h') \<Rightarrow>
          Inr (new_closure
                 \<lparr>clo_captured_env = captured, clo_func_ast = ast, clo_type = TCLOSURE\<rparr> h'))"

text \<open>
  \<open>__set_up_function_table\<close>: the closure of a top-level function is made with an empty
  environment, so it captures nothing.
\<close>

fun set_up_function_table :: "func_def list \<Rightarrow> ftable \<Rightarrow> heap \<Rightarrow> ftable \<times> heap" where
  "set_up_function_table [] ft h = (ft, h)"
| "set_up_function_table (func_def # rest) ft h =
     (case new_closure
             \<lparr>clo_captured_env = [],
              clo_func_ast = \<lparr>ast_args = def_args func_def,
                              ast_statements = def_statements func_def\<rparr>,
              clo_type = TCLOSURE\<rparr> h of
        (c, h') \<Rightarrow>
          set_up_function_table rest
            (dict_set ft (def_name func_def)
               (dict_set (case dict_get ft (def_name func_def) of None \<Rightarrow> [] | Some d \<Rightarrow> d)
                  (length (def_args func_def)) c))
            h')"

text \<open>
  \<open>__get_func_by_name\<close>; \<open>num_params\<close> is \<open>None\<close> when a bare name is evaluated. The
  result is the closure's reference, or \<open>None\<close> as in the source.
\<close>

definition get_func_by_name :: "ftable \<Rightarrow> string \<Rightarrow> nat option \<Rightarrow> state \<Rightarrow> error + nat option" where
  "get_func_by_name ft name num_params st =
     (case dict_get ft name of
        None \<Rightarrow>
          (case env_get (environment st) name of
             None \<Rightarrow> Inr None
           | Some closure_val_obj \<Rightarrow>
               if val_t (vals (st_heap st) ! closure_val_obj) \<noteq> TCLOSURE then Inl TYPE_ERROR
               else (case val_v (vals (st_heap st) ! closure_val_obj) of
                       PClo c \<Rightarrow>
                         if Some (length (ast_args (clo_func_ast (clos (st_heap st) ! c))))
                            \<noteq> num_params
                         then Inl TYPE_ERROR else Inr (Some c)
                     | _ \<Rightarrow> Inl (PY_EXCEPTION ''AttributeError'')))
      | Some candidate_funcs \<Rightarrow>
          (case num_params of
             None \<Rightarrow>
               if length candidate_funcs > 1 then Inl NAME_ERROR
               else (case candidate_funcs of
                       [] \<Rightarrow> Inl (PY_EXCEPTION ''StopIteration'')
                     | (num_args, closure) # _ \<Rightarrow> Inr (Some closure))
           | Some k \<Rightarrow>
               (case dict_get candidate_funcs k of
                  None \<Rightarrow> Inl NAME_ERROR
                | Some closure \<Rightarrow> Inr (Some closure))))"

section \<open>Names, properties and methods\<close>

text \<open>
  \<open>__get_property_or_method\<close> recurses along the \<open>proto\<close> links; on a chain that never
  ends the host's recursion does not come back with a value, and the model's budget runs
  out.
\<close>

fun get_property_or_method :: "nat \<Rightarrow> heap \<Rightarrow> nat \<Rightarrow> string \<Rightarrow> error + nat" where
  "get_property_or_method 0 h obj name = Inl OUT_OF_FUEL"
| "get_property_or_method (Suc n) h obj name =
     (case val_v (vals h ! obj) of
        PObj a \<Rightarrow>
          (case dict_get (obj_values (objs h ! a)) name of
             Some x \<Rightarrow> Inr x
           | None \<Rightarrow>
               (case obj_proto (objs h ! a) of
                  None \<Rightarrow> Inl NAME_ERROR
                | Some pr \<Rightarrow>
                    if val_t (vals h ! pr) = TOBJECT
                    then get_property_or_method n h pr name
                    else Inl NAME_ERROR))
      | _ \<Rightarrow> Inl (PY_EXCEPTION ''AttributeError''))"

definition eval_name :: "nat \<Rightarrow> ftable \<Rightarrow> string \<Rightarrow> state \<Rightarrow> nat result" where
  "eval_name n ft name st =
     (if CHR ''.'' \<in> set name then
        (case split_name name of
           Inl e \<Rightarrow> Inl e
         | Inr (var_name, field) \<Rightarrow>
             (case env_get (environment st) var_name of
                None \<Rightarrow> Inl (PY_EXCEPTION ''AttributeError'')
              | Some obj \<Rightarrow>
                  if val_t (vals (st_heap st) ! obj) = TOBJECT then
                    (if field = ''proto'' then
                       (case val_v (vals (st_heap st) ! obj) of
                          PObj a \<Rightarrow>
                            (case obj_proto (objs (st_heap st) ! a) of
                               None \<Rightarrow> Inl NAME_ERROR
                             | Some pr \<Rightarrow> Inr (pr, st))
                        | _ \<Rightarrow> Inl (PY_EXCEPTION ''AttributeError''))
                     else (case get_property_or_method n (st_heap st) obj field of
                             Inl e \<Rightarrow> Inl e
                           | Inr x \<Rightarrow> Inr (x, st)))
                  else Inl TYPE_ERROR))
      else
        (case env_get (environment st) name of
           Some val \<Rightarrow> Inr (val, st)
         | None \<Rightarrow>
             (case get_func_by_name ft name None st of
                Inl e \<Rightarrow> Inl e
              | Inr None \<Rightarrow> Inl NAME_ERROR
              | Inr (Some closure) \<Rightarrow>
                  alloc_value \<lparr>val_t = TCLOSURE, val_v = PClo closure\<rparr> st)))"

text \<open>
  The \<open>while\<close> loop of \<open>__call_method\<close> that looks the method up: \<open>target_closure\<close> and
  \<open>curr_proto\<close> are the loop's two variables. Each round spends one unit of the budget; on
  a chain of \<open>proto\<close> links that never ends the loop does not stop.
\<close>

fun method_loop :: "nat \<Rightarrow> heap \<Rightarrow> string \<Rightarrow> nat option \<Rightarrow> nat option \<Rightarrow> error + nat option" where
  "method_loop 0 h closure_name target_closure curr_proto = Inl OUT_OF_FUEL"
| "method_loop (Suc n) h closure_name target_closure curr_proto =
     (case curr_proto of
        None \<Rightarrow> Inr target_closure
      | Some cp \<Rightarrow>
          if target_closure \<noteq> None then Inr target_closure
          else (case val_v (vals h ! cp) of
                  PObj a \<Rightarrow>
                    method_loop n h closure_name
                      (dict_get (obj_values (objs h ! a)) closure_name)
                      (obj_proto (objs h ! a))
                | _ \<Rightarrow> Inl (PY_EXCEPTION ''AttributeError'')))"

section \<open>Calls\<close>

text \<open>
  The methods below call \<open>__eval_expr\<close> and \<open>__run_statements\<close>; they receive the two as
  \<open>ev\<close> and \<open>run\<close>, and the budget \<open>n\<close> for the loops and deep copies of their own.
\<close>

definition prepare_env_with_closed_variables ::
  "Closure \<Rightarrow> (string, nat) dict \<Rightarrow> (string, nat) dict" where
  "prepare_env_with_closed_variables target_closure temp_env =
     fold (\<lambda>(var_name, x) env. dict_set env var_name x)
       (clo_captured_env target_closure) temp_env"

fun params_loop ::
  "nat \<Rightarrow> evaluator \<Rightarrow> (formal \<times> expr) list \<Rightarrow> (string, nat) dict \<Rightarrow> state
   \<Rightarrow> (string, nat) dict result" where
  "params_loop n ev [] temp_env st = Inr (temp_env, st)"
| "params_loop n ev ((formal_ast, actual_ast) # rest) temp_env st =
     bindE (ev actual_ast st) (\<lambda>x st1.
       if is_refarg formal_ast then
         params_loop n ev rest (dict_set temp_env (formal_name formal_ast) x) st1
       else
         (case deepcopy n x (st_heap st1) of
            Inl e \<Rightarrow> Inl e
          | Inr (result, h) \<Rightarrow>
              params_loop n ev rest (dict_set temp_env (formal_name formal_ast) result)
                (st1\<lparr>st_heap := h\<rparr>)))"

definition prepare_params ::
  "nat \<Rightarrow> evaluator \<Rightarrow> formal list \<Rightarrow> expr list \<Rightarrow> (string, nat) dict \<Rightarrow> state
   \<Rightarrow> (string, nat) dict result" where
  "prepare_params n ev formal_args actual_args temp_env st =
     (if length actual_args \<noteq> length formal_args then Inl NAME_ERROR
      else params_loop n ev (zip formal_args actual_args) temp_env st)"

fun print_loop :: "evaluator \<Rightarrow> expr list \<Rightarrow> string \<Rightarrow> state \<Rightarrow> string result" where
  "print_loop ev [] output st = Inr (output, st)"
| "print_loop ev (arg # args) output st =
     bindE (ev arg st) (\<lambda>result st1.
       case get_printable (vals (st_heap st1) ! result) of
         None \<Rightarrow> Inl (PY_EXCEPTION ''TypeError'')
       | Some s \<Rightarrow> print_loop ev args (output @ s) st1)"

definition call_print :: "evaluator \<Rightarrow> expr list \<Rightarrow> state \<Rightarrow> nat result" where
  "call_print ev args st =
     bindE (print_loop ev args [] st) (\<lambda>output st1.
       Inr (NIL_VALUE, st1\<lparr>st_output := st_output st1 @ [Some output]\<rparr>))"

text \<open>The end of \<open>__call_input\<close>, from \<open>get_input\<close> on.\<close>

definition read_input :: "string \<Rightarrow> state \<Rightarrow> nat result" where
  "read_input name st =
     (case st_input st of
        [] \<Rightarrow>
          if name = ''inputi'' then Inl (PY_EXCEPTION ''TypeError'')
          else alloc_value \<lparr>val_t = TSTRING, val_v = PNone\<rparr> st
      | inp # rest \<Rightarrow>
          if name = ''inputi'' then
            (case py_int inp of
               None \<Rightarrow> Inl (PY_EXCEPTION ''ValueError'')
             | Some i \<Rightarrow> alloc_value \<lparr>val_t = TINT, val_v = PInt i\<rparr> (st\<lparr>st_input := rest\<rparr>))
          else alloc_value \<lparr>val_t = TSTRING, val_v = PStr inp\<rparr> (st\<lparr>st_input := rest\<rparr>))"

definition call_input :: "evaluator \<Rightarrow> string \<Rightarrow> expr list \<Rightarrow> state \<Rightarrow> nat result" where
  "call_input ev name args st =
     (if length args = 1 then
        bindE (ev (hd args) st) (\<lambda>result st1.
          read_input name
            (st1\<lparr>st_output := st_output st1 @ [get_printable (vals (st_heap st1) ! result)]\<rparr>))
      else if length args > 1 then Inl NAME_ERROR
      else read_input name st)"

text \<open>
  The end of \<open>__call_func\<close> and of \<open>__call_method\<close>: the new dictionary is pushed on the
  scopes that are there, the body runs, the dictionary is popped.
\<close>

definition run_body :: "runner \<Rightarrow> func_ast \<Rightarrow> (string, nat) dict \<Rightarrow> state \<Rightarrow> nat result" where
  "run_body run target_ast new_env st =
     bindE (run (ast_statements target_ast) (push_scope (Some new_env) st)) (\<lambda>r st1.
       case pop_scope st1 of
         Inl e \<Rightarrow> Inl e
       | Inr st2 \<Rightarrow> Inr (snd r, st2))"

definition call_func_with ::
  "nat \<Rightarrow> evaluator \<Rightarrow> runner \<Rightarrow> ftable \<Rightarrow> string \<Rightarrow> expr list \<Rightarrow> state \<Rightarrow> nat result" where
  "call_func_with n ev run ft func_name actual_args st =
     (if func_name = ''print'' then call_print ev actual_args st
      else if func_name = ''inputi'' then call_input ev func_name actual_args st
      else if func_name = ''inputs'' then call_input ev func_name actual_args st
      else
        (case get_func_by_name ft func_name (Some (length actual_args)) st of
           Inl e \<Rightarrow> Inl e
         | Inr None \<Rightarrow> Inl NAME_ERROR
         | Inr (Some c) \<Rightarrow>
             (let target_closure = clos (st_heap st) ! c in
              if clo_type target_closure \<noteq> TCLOSURE then Inl TYPE_ERROR
              else
                bindE (prepare_params n ev (ast_args (clo_func_ast target_closure)) actual_args
                         (prepare_env_with_closed_variables target_closure []) st)
                  (\<lambda>new_env st1. run_body run (clo_func_ast target_closure) new_env st1))))"

definition call_method_with ::
  "nat \<Rightarrow> evaluator \<Rightarrow> runner \<Rightarrow> string \<Rightarrow> string \<Rightarrow> expr list \<Rightarrow> state \<Rightarrow> nat result" where
  "call_method_with n ev run objref closure_name actual_args st =
     (case env_get (environment st) objref of
        None \<Rightarrow> Inl NAME_ERROR
      | Some obj \<Rightarrow>
          if val_t (vals (st_heap st) ! obj) \<noteq> TOBJECT then Inl TYPE_ERROR
          else
            (case method_loop n (st_heap st) closure_name None (Some obj) of
               Inl e \<Rightarrow> Inl e
             | Inr None \<Rightarrow> Inl NAME_ERROR
             | Inr (Some target_closure) \<Rightarrow>
                 if val_t (vals (st_heap st) ! target_closure) \<noteq> TCLOSURE then Inl TYPE_ERROR
                 else
                   (case val_v (vals (st_heap st) ! target_closure) of
                      PClo c \<Rightarrow>
                        bindE (prepare_params n ev
                                 (ast_args (clo_func_ast (clos (st_heap st) ! c))) actual_args
                                 (prepare_env_with_closed_variables (clos (st_heap st) ! c)
                                    [(''this'', obj)]) st)
                          (\<lambda>new_env st1.
                             run_body run (clo_func_ast (clos (st_heap st) ! c)) new_env st1)
                    | _ \<Rightarrow> Inl (PY_EXCEPTION ''AttributeError''))))"

section \<open>Assignment\<close>

text \<open>
  The two checks before \<open>.proto = src_value_obj\<close> and the store itself; the source has
  them twice, once for a new and once for an existing target.
\<close>

definition set_proto :: "nat \<Rightarrow> nat \<Rightarrow> heap \<Rightarrow> error + heap" where
  "set_proto target src_value_obj h =
     (if val_t (vals h ! src_value_obj) \<in> {TNIL, TSTRING} then Inl NAME_ERROR
      else if val_t (vals h ! src_value_obj) \<noteq> TOBJECT then Inl TYPE_ERROR
      else (case val_v (vals h ! target) of
              PObj a \<Rightarrow>
                Inr (h\<lparr>objs := (objs h)[a := (objs h ! a)\<lparr>obj_proto := Some src_value_obj\<rparr>]\<rparr>)
            | _ \<Rightarrow> Inl (PY_EXCEPTION ''AttributeError'')))"

text \<open>\<open>x.v.type = ty\<close>: the attribute \<open>type\<close> of the closure or object that \<open>x.v\<close> is.\<close>

definition set_payload_type :: "payload \<Rightarrow> Type \<Rightarrow> heap \<Rightarrow> error + heap" where
  "set_payload_type p ty h =
     (case p of
        PClo c \<Rightarrow> Inr (h\<lparr>clos := (clos h)[c := (clos h ! c)\<lparr>clo_type := ty\<rparr>]\<rparr>)
      | PObj a \<Rightarrow> Inr (h\<lparr>objs := (objs h)[a := (objs h ! a)\<lparr>obj_type := ty\<rparr>]\<rparr>)
      | _ \<Rightarrow> Inl (PY_EXCEPTION ''AttributeError''))"

text \<open>\<open>self.env.set(var_name, x)\<close> on the state.\<close>

definition set_var :: "string \<Rightarrow> nat \<Rightarrow> state \<Rightarrow> error + state" where
  "set_var var_name x st =
     (case env_set (environment st) var_name x False of
        Inl e \<Rightarrow> Inl e
      | Inr es \<Rightarrow> Inr (st\<lparr>environment := es\<rparr>))"

text \<open>
  \<open>__assign\<close> after the expression is evaluated and shallow-copied into
  \<open>src_value_obj\<close>. The test in front reads \<open>target_value_obj.t\<close> whenever there is a field,
  also when \<open>target_value_obj\<close> is \<open>None\<close>. The comparison \<open>target_value_obj == Type.OBJECT\<close>
  of a \<open>Value\<close> with a member of the enumeration is never true, so the statement under it
  never runs.
\<close>

definition assign_target :: "string \<Rightarrow> nat \<Rightarrow> state \<Rightarrow> error + state" where
  "assign_target name src_value_obj st =
     (case (if CHR ''.'' \<in> set name then split_name name else Inr (name, [])) of
        Inl e \<Rightarrow> Inl e
      | Inr (var_name, field) \<Rightarrow>
          (case env_get (environment st) var_name of
             None \<Rightarrow>
               if field \<noteq> [] then Inl (PY_EXCEPTION ''AttributeError'')
               else if field = ''proto'' then
                 (case new_object empty_object (st_heap st) of
                    (a, h1) \<Rightarrow>
                      (case new_value \<lparr>val_t = TOBJECT, val_v = PObj a\<rparr> h1 of
                         (new_obj, h2) \<Rightarrow>
                           (case set_var var_name new_obj (st\<lparr>st_heap := h2\<rparr>) of
                              Inl e \<Rightarrow> Inl e
                            | Inr st1 \<Rightarrow>
                                (case set_proto new_obj src_value_obj (st_heap st1) of
                                   Inl e \<Rightarrow> Inl e
                                 | Inr h3 \<Rightarrow> Inr (st1\<lparr>st_heap := h3\<rparr>)))))
               else set_var var_name src_value_obj st
           | Some target_value_obj \<Rightarrow>
               (let h = st_heap st; target = vals h ! target_value_obj; src = vals h ! src_value_obj
                in
                if field \<noteq> [] \<and> val_t target \<noteq> TOBJECT then Inl TYPE_ERROR
                else if val_t target = TOBJECT \<and> field \<noteq> [] then
                  (if field = ''proto'' then
                     (case set_proto target_value_obj src_value_obj h of
                        Inl e \<Rightarrow> Inl e
                      | Inr h1 \<Rightarrow> Inr (st\<lparr>st_heap := h1\<rparr>))
                   else
                     (case val_v target of
                        PObj a \<Rightarrow>
                          Inr (st\<lparr>st_heap := h\<lparr>objs := (objs h)[a := (objs h ! a)
                                 \<lparr>obj_values := dict_set (obj_values (objs h ! a)) field
                                                  src_value_obj\<rparr>]\<rparr>\<rparr>)
                      | _ \<Rightarrow> Inl (PY_EXCEPTION ''AttributeError'')))
                else
                  (case (if val_t target = TCLOSURE \<and> val_t src \<noteq> TCLOSURE
                         then set_payload_type (val_v target) (val_t src) h else Inr h) of
                     Inl e \<Rightarrow> Inl e
                   | Inr h1 \<Rightarrow>
                       Inr (st\<lparr>st_heap := h1\<lparr>vals := (vals h1)[target_value_obj := src]\<rparr>\<rparr>)))))"

definition assign_with :: "evaluator \<Rightarrow> string \<Rightarrow> expr \<Rightarrow> state \<Rightarrow> error + state" where
  "assign_with ev name expression st =
     bindE (ev expression st) (\<lambda>x st1.
       case copy_value x (st_heap st1) of
         (src_value_obj, h) \<Rightarrow> assign_target name src_value_obj (st1\<lparr>st_heap := h\<rparr>))"

section \<open>Expressions\<close>

definition eval_op :: "evaluator \<Rightarrow> binop \<Rightarrow> expr \<Rightarrow> expr \<Rightarrow> state \<Rightarrow> nat result" where
  "eval_op ev oper op1 op2 st =
     bindE (ev op1 st) (\<lambda>left_value_obj st1.
       bindE (ev op2 st1) (\<lambda>right_value_obj st2.
         case eval_op_values oper (vals (st_heap st2) ! left_value_obj)
                (vals (st_heap st2) ! right_value_obj) of
           Inl e \<Rightarrow> Inl e
         | Inr x \<Rightarrow> alloc_value x st2))"

text \<open>The two lambdas handed to \<open>__eval_unary\<close>: \<open>-1 * x\<close> and \<open>not x\<close>.\<close>

definition py_neg :: "payload \<Rightarrow> error + payload" where
  "py_neg x =
     (case x of
        PStr s \<Rightarrow> Inr (PStr [])
      | _ \<Rightarrow> (case as_int x of
                Some i \<Rightarrow> Inr (PInt (- 1 * i))
              | None \<Rightarrow> Inl (PY_EXCEPTION ''TypeError'')))"

definition py_not :: "payload \<Rightarrow> error + payload" where
  "py_not x = Inr (PBool (\<not> truthy x))"

definition eval_unary ::
  "evaluator \<Rightarrow> bool \<Rightarrow> expr \<Rightarrow> Type \<Rightarrow> (payload \<Rightarrow> error + payload) \<Rightarrow> state \<Rightarrow> nat result" where
  "eval_unary ev is_not op1 ty f st =
     bindE (ev op1 st) (\<lambda>x st1.
       let value_obj = unary_op_promotion is_not (vals (st_heap st1) ! x) in
       if val_t value_obj \<noteq> ty then Inl TYPE_ERROR
       else (case f (val_v value_obj) of
               Inl e \<Rightarrow> Inl e
             | Inr p \<Rightarrow> alloc_value \<lparr>val_t = ty, val_v = p\<rparr> st1))"

definition eval_lambda :: "nat \<Rightarrow> formal list \<Rightarrow> stmt list \<Rightarrow> state \<Rightarrow> nat result" where
  "eval_lambda n args statements st =
     (case closure_init n \<lparr>ast_args = args, ast_statements = statements\<rparr>
             (environment st) (st_heap st) of
        Inl e \<Rightarrow> Inl e
      | Inr (c, h) \<Rightarrow> alloc_value \<lparr>val_t = TCLOSURE, val_v = PClo c\<rparr> (st\<lparr>st_heap := h\<rparr>))"

definition eval_obj :: "state \<Rightarrow> nat result" where
  "eval_obj st =
     (case new_object empty_object (st_heap st) of
        (a, h) \<Rightarrow> alloc_value \<lparr>val_t = TOBJECT, val_v = PObj a\<rparr> (st\<lparr>st_heap := h\<rparr>))"

definition eval_expr_step ::
  "nat \<Rightarrow> evaluator \<Rightarrow> runner \<Rightarrow> ftable \<Rightarrow> expr \<Rightarrow> state \<Rightarrow> nat result" where
  "eval_expr_step n ev run ft expr_ast st =
     (case expr_ast of
        ENil \<Rightarrow> Inr (NIL_VALUE, st)
      | EInt i \<Rightarrow> alloc_value \<lparr>val_t = TINT, val_v = PInt i\<rparr> st
      | EString x \<Rightarrow> alloc_value \<lparr>val_t = TSTRING, val_v = PStr x\<rparr> st
      | EBool b \<Rightarrow> alloc_value \<lparr>val_t = TBOOL, val_v = PBool b\<rparr> st
      | EVar name \<Rightarrow> eval_name n ft name st
      | EFcall name args \<Rightarrow> call_func_with n ev run ft name args st
      | EBinop oper op1 op2 \<Rightarrow> eval_op ev oper op1 op2 st
      | ENeg op1 \<Rightarrow> eval_unary ev False op1 TINT py_neg st
      | ENot op1 \<Rightarrow> eval_unary ev True op1 TBOOL py_not st
      | ELambda args statements \<Rightarrow> eval_lambda n args statements st
      | EObj \<Rightarrow> eval_obj st
      | EMcall objref name args \<Rightarrow> call_method_with n ev run objref name args st)"

section \<open>Statements\<close>

definition do_return :: "nat \<Rightarrow> evaluator \<Rightarrow> expr option \<Rightarrow> state \<Rightarrow> (ExecStatus \<times> nat) result" where
  "do_return n ev expr_ast st =
     (case expr_ast of
        None \<Rightarrow> Inr ((RETURN, NIL_VALUE), st)
      | Some e \<Rightarrow>
          bindE (ev e st) (\<lambda>x st1.
            case deepcopy n x (st_heap st1) of
              Inl err \<Rightarrow> Inl err
            | Inr (value_obj, h) \<Rightarrow> Inr ((RETURN, value_obj), st1\<lparr>st_heap := h\<rparr>)))"

text \<open>The condition of \<open>if\<close> and \<open>while\<close>: an integer is coerced, anything but a boolean raises.\<close>

definition condition :: "Value \<Rightarrow> error + bool" where
  "condition x =
     (let r = (if val_t x = TINT then int_to_bool x else x) in
      if val_t r \<noteq> TBOOL then Inl TYPE_ERROR else Inr (truthy (val_v r)))"

definition do_if ::
  "evaluator \<Rightarrow> runner \<Rightarrow> expr \<Rightarrow> stmt list \<Rightarrow> stmt list option \<Rightarrow> state
   \<Rightarrow> (ExecStatus \<times> nat) result" where
  "do_if ev run cond_ast statements else_statements st =
     bindE (ev cond_ast st) (\<lambda>x st1.
       case condition (vals (st_heap st1) ! x) of
         Inl e \<Rightarrow> Inl e
       | Inr True \<Rightarrow> run statements st1
       | Inr False \<Rightarrow>
           (case else_statements of
              Some ss \<Rightarrow> run ss st1
            | None \<Rightarrow> Inr ((CONTINUE, NIL_VALUE), st1)))"

text \<open>
  The test \<open>run_while.value()\<close> at the head of the loop of \<open>__do_while\<close>, after a round.
  \<open>run_while\<close> is then the boolean made by \<open>__int_to_bool\<close> when the condition was an
  integer, and otherwise the very \<open>Value\<close> the condition evaluated to, which the body may
  have overwritten in place: \<open>first\<close> is that \<open>Value\<close> as it was when the condition was
  evaluated, \<open>x\<close> its reference, \<open>st\<close> the state after the body.
\<close>

definition run_while_value :: "Value \<Rightarrow> nat \<Rightarrow> state \<Rightarrow> bool" where
  "run_while_value first x st =
     (if val_t first = TINT then truthy (val_v (int_to_bool first))
      else truthy (val_v (vals (st_heap st) ! x)))"

text \<open>
  \<open>__do_while\<close>: one round of the loop for each unit of the budget. A round evaluates and
  checks the condition and runs the body; the next round is entered only if the test at
  the head of the loop holds, and the loop ends normally if it does not.
\<close>

fun do_while ::
  "nat \<Rightarrow> evaluator \<Rightarrow> runner \<Rightarrow> expr \<Rightarrow> stmt list \<Rightarrow> state \<Rightarrow> (ExecStatus \<times> nat) result" where
  "do_while 0 ev run cond_ast statements st = Inl OUT_OF_FUEL"
| "do_while (Suc k) ev run cond_ast statements st =
     bindE (ev cond_ast st) (\<lambda>x st1.
       case condition (vals (st_heap st1) ! x) of
         Inl e \<Rightarrow> Inl e
       | Inr True \<Rightarrow>
           bindE (run statements st1) (\<lambda>r st2.
             if fst r = RETURN then Inr (r, st2)
             else if run_while_value (vals (st_heap st1) ! x) x st2
             then do_while k ev run cond_ast statements st2
             else Inr ((CONTINUE, NIL_VALUE), st2))
       | Inr False \<Rightarrow> Inr ((CONTINUE, NIL_VALUE), st1))"

text \<open>
  One statement of the loop in \<open>__run_statements\<close>. A call or an assignment leaves the
  status \<open>CONTINUE\<close>; the value that goes with that status is never read.
\<close>

definition run_statement ::
  "nat \<Rightarrow> evaluator \<Rightarrow> runner \<Rightarrow> ftable \<Rightarrow> stmt \<Rightarrow> state \<Rightarrow> (ExecStatus \<times> nat) result" where
  "run_statement n ev run ft statement st =
     (case statement of
        SFcall name args \<Rightarrow>
          bindE (call_func_with n ev run ft name args st) (\<lambda>x st1.
            Inr ((CONTINUE, NIL_VALUE), st1))
      | SAssign name expression \<Rightarrow>
          (case assign_with ev name expression st of
             Inl e \<Rightarrow> Inl e
           | Inr st1 \<Rightarrow> Inr ((CONTINUE, NIL_VALUE), st1))
      | SMcall objref name args \<Rightarrow>
          bindE (call_method_with n ev run objref name args st) (\<lambda>x st1.
            Inr ((CONTINUE, NIL_VALUE), st1))
      | SReturn expr_ast \<Rightarrow> do_return n ev expr_ast st
      | SIf cond_ast statements else_statements \<Rightarrow>
          do_if ev run cond_ast statements else_statements st
      | SWhile cond_ast statements \<Rightarrow> do_while n ev run cond_ast statements st)"

text \<open>The loop of \<open>__run_statements\<close>, with its two exits; each pops the scope.\<close>

fun statements_loop ::
  "nat \<Rightarrow> evaluator \<Rightarrow> runner \<Rightarrow> ftable \<Rightarrow> stmt list \<Rightarrow> state \<Rightarrow> (ExecStatus \<times> nat) result" where
  "statements_loop n ev run ft [] st =
     (case pop_scope st of
        Inl e \<Rightarrow> Inl e
      | Inr st1 \<Rightarrow> Inr ((CONTINUE, NIL_VALUE), st1))"
| "statements_loop n ev run ft (statement # rest) st =
     bindE (run_statement n ev run ft statement st) (\<lambda>r st1.
       if fst r = RETURN then
         (case pop_scope st1 of
            Inl e \<Rightarrow> Inl e
          | Inr st2 \<Rightarrow> Inr (r, st2))
       else statements_loop n ev run ft rest st1)"

definition run_statements_step ::
  "nat \<Rightarrow> evaluator \<Rightarrow> runner \<Rightarrow> ftable \<Rightarrow> stmt list \<Rightarrow> state \<Rightarrow> (ExecStatus \<times> nat) result" where
  "run_statements_step n ev run ft statements st =
     statements_loop n ev run ft statements (push_scope None st)"

section \<open>The recursion\<close>

text \<open>
  \<open>__eval_expr\<close> and \<open>__run_statements\<close> call each other through the methods above. The
  budget bounds how deep these calls nest: with budget \<open>Suc n\<close> the two methods run their
  own body once and call each other with budget \<open>n\<close>; with none left the answer is
  \<open>OUT_OF_FUEL\<close>.
\<close>

primrec interp :: "nat \<Rightarrow> ftable \<Rightarrow> evaluator \<times> runner" where
  "interp 0 ft = ((\<lambda>e st. Inl OUT_OF_FUEL), (\<lambda>ss st. Inl OUT_OF_FUEL))"
| "interp (Suc n) ft =
     (eval_expr_step n (fst (interp n ft)) (snd (interp n ft)) ft,
      run_statements_step n (fst (interp n ft)) (snd (interp n ft)) ft)"

definition eval_expr :: "nat \<Rightarrow> ftable \<Rightarrow> evaluator" where
  "eval_expr n ft = fst (interp n ft)"

definition run_statements :: "nat \<Rightarrow> ftable \<Rightarrow> runner" where
  "run_statements n ft = snd (interp n ft)"

text \<open>The methods as a statement or an expression of budget \<open>Suc n\<close> calls them.\<close>

definition call_func :: "nat \<Rightarrow> ftable \<Rightarrow> string \<Rightarrow> expr list \<Rightarrow> state \<Rightarrow> nat result" where
  "call_func n ft = call_func_with n (eval_expr n ft) (run_statements n ft) ft"

definition call_method :: "nat \<Rightarrow> ftable \<Rightarrow> string \<Rightarrow> string \<Rightarrow> expr list \<Rightarrow> state \<Rightarrow> nat result" where
  "call_method n ft = call_method_with n (eval_expr n ft) (run_statements n ft)"

definition assign :: "nat \<Rightarrow> ftable \<Rightarrow> string \<Rightarrow> expr \<Rightarrow> state \<Rightarrow> error + state" where
  "assign n ft = assign_with (eval_expr n ft)"

text \<open>
  \<open>Interpreter.run\<close>, from the parsed program on: the function table, a new environment,
  \<open>main\<close> looked up with no parameters, its statements run.
\<close>

definition run_program :: "nat \<Rightarrow> func_def list \<Rightarrow> string list \<Rightarrow> (ExecStatus \<times> nat) result" where
  "run_program n functions inp =
     (case set_up_function_table functions [] initial_heap of
        (ft, h) \<Rightarrow>
          (let st = \<lparr>environment = [[]], st_heap = h, st_output = [], st_input = inp\<rparr> in
           case get_func_by_name ft ''main'' (Some 0) st of
             Inl e \<Rightarrow> Inl e
           | Inr None \<Rightarrow> Inl NAME_ERROR
           | Inr (Some main_func) \<Rightarrow>
               run_statements n ft (ast_statements (clo_func_ast (clos h ! main_func))) st))"

section \<open>Observing a result\<close>

text \<open>The \<open>Value\<close> an evaluation yields, and the one a statement list returns.\<close>

definition result_value :: "nat result \<Rightarrow> error + Value" where
  "result_value r =
     (case r of Inl e \<Rightarrow> Inl e | Inr (a, st) \<Rightarrow> Inr (vals (st_heap st) ! a))"

definition returned_value :: "(ExecStatus \<times> nat) result \<Rightarrow> error + Value" where
  "returned_value r =
     (case r of Inl e \<Rightarrow> Inl e | Inr (x, st) \<Rightarrow> Inr (vals (st_heap st) ! snd x))"

text \<open>The state a run starts from, with an empty function table's heap.\<close>

definition initial_state :: state where
  "initial_state =
     \<lparr>environment = [[]], st_heap = initial_heap, st_output = [], st_input = []\<rparr>"

text \<open>A payload that \<open>copy.deepcopy\<close> returns as it is.\<close>

fun atomic :: "payload \<Rightarrow> bool" where
  "atomic (PObj a) = False"
| "atomic (PClo a) = False"
| "atomic _ = True"

text \<open>No instance is ever removed from the heap; \<open>heap_le h h'\<close> says that \<open>h'\<close> has at
  least the references of \<open>h\<close>.\<close>

definition heap_le :: "heap \<Rightarrow> heap \<Rightarrow> bool" where
  "heap_le h h' =
     (length (vals h) \<le> length (vals h') \<and> length (objs h) \<le> length (objs h')
      \<and> length (clos h) \<le> length (clos h'))"

text \<open>
  The depth of the scope chain after a step that does not raise: \<open>keeps_depth d m\<close> says
  that the state of the result \<open>m\<close>, if there is one, has \<open>d\<close> scopes; \<open>ev_keeps\<close> and
  \<open>run_keeps\<close> say that an evaluator and a runner leave the number of scopes as it was.
\<close>

definition keeps_depth :: "nat \<Rightarrow> 'a result \<Rightarrow> bool" where
  "keeps_depth d m = (\<forall>r st'. m = Inr (r, st') \<longrightarrow> length (environment st') = d)"

definition ev_keeps :: "evaluator \<Rightarrow> bool" where
  "ev_keeps ev = (\<forall>e st. keeps_depth (length (environment st)) (ev e st))"

definition run_keeps :: "runner \<Rightarrow> bool" where
  "run_keeps rn = (\<forall>ss st. keeps_depth (length (environment st)) (rn ss st))"

section \<open>Method resolution as the specification words it\<close>

text \<open>
  \<open>is_chain h x os\<close>: following the \<open>proto\<close> links from the \<open>Value\<close> \<open>x\<close> visits the
  objects \<open>os\<close>, in this order, and then ends at an object without a prototype.
\<close>

fun is_chain :: "heap \<Rightarrow> nat option \<Rightarrow> nat list \<Rightarrow> bool" where
  "is_chain h None os = (os = [])"
| "is_chain h (Some x) [] = False"
| "is_chain h (Some x) (a # os) =
     (val_v (vals h ! x) = PObj a \<and> is_chain h (obj_proto (objs h ! a)) os)"

text \<open>
  The specification's resolution, to compare the loop of \<open>__call_method\<close> with: the
  receiver's own field table first, then the prototypes outward; the first object that has
  the name decides.
\<close>

fun resolve_chain :: "heap \<Rightarrow> string \<Rightarrow> nat list \<Rightarrow> nat option" where
  "resolve_chain h name [] = None"
| "resolve_chain h name (a # os) =
     (case dict_get (obj_values (objs h ! a)) name of
        Some x \<Rightarrow> Some x
      | None \<Rightarrow> resolve_chain h name os)"

section \<open>Example programs\<close>

text \<open>Two functions \<open>foo\<close>, of no and of one parameter, and one function \<open>bar\<close>.\<close>

definition overloaded_program :: "func_def list" where
  "overloaded_program =
     [\<lparr>def_name = ''foo'', def_args = [], def_statements = []\<rparr>,
      \<lparr>def_name = ''foo'', def_args = [Arg ''a''], def_statements = []\<rparr>,
      \<lparr>def_name = ''bar'', def_args = [Arg ''a''], def_statements = []\<rparr>]"

definition overloaded_table :: ftable where
  "overloaded_table = fst (set_up_function_table overloaded_program [] initial_heap)"

definition overloaded_state :: state where
  "overloaded_state =
     initial_state\<lparr>st_heap := snd (set_up_function_table overloaded_program [] initial_heap)\<rparr>"

text \<open>\<open>func main() { x.proto = @; }\<close>\<close>

definition proto_on_unbound_program :: "func_def list" where
  "proto_on_unbound_program =
     [\<lparr>def_name = ''main'', def_args = [], def_statements = [SAssign ''x.proto'' EObj]\<rparr>]"

text \<open>
  \<open>func main() { f = lambda() { return 1; }; g = f; f = 5; return g(); }\<close>, with or
  without the statement \<open>f = 5;\<close>.
\<close>

definition alias_program :: "bool \<Rightarrow> func_def list" where
  "alias_program reassign =
     [\<lparr>def_name = ''main'', def_args = [], def_statements =
        [SAssign ''f'' (ELambda [] [SReturn (Some (EInt 1))]),
         SAssign ''g'' (EVar ''f'')]
        @ (if reassign then [SAssign ''f'' (EInt 5)] else [])
        @ [SReturn (Some (EFcall ''g'' []))]\<rparr>]"

text \<open>
  A state in which \<open>f\<close> and \<open>g\<close> hold the same closure (\<open>lambda() { return 1; }\<close>), each
  in a \<open>Value\<close> of its own, with a \<open>Value\<close> 5 at reference 2 to assign to \<open>f\<close>.
\<close>

definition retag_state :: state where
  "retag_state =
     \<lparr>environment = [[(''f'', 1), (''g'', 3)]],
      st_heap = \<lparr>vals = [create_value_nil,
                         \<lparr>val_t = TCLOSURE, val_v = PClo 0\<rparr>,
                         \<lparr>val_t = TINT, val_v = PInt 5\<rparr>,
                         \<lparr>val_t = TCLOSURE, val_v = PClo 0\<rparr>],
                 objs = [],
                 clos = [\<lparr>clo_captured_env = [],
                          clo_func_ast = \<lparr>ast_args = [],
                                          ast_statements = [SReturn (Some (EInt 1))]\<rparr>,
                          clo_type = TCLOSURE\<rparr>]\<rparr>,
      st_output = [], st_input = []\<rparr>"

text \<open>\<open>func foo() { return x; }  func main() { x = 5; return foo(); }\<close>\<close>

definition dynamic_scope_program :: "func_def list" where
  "dynamic_scope_program =
     [\<lparr>def_name = ''foo'', def_args = [], def_statements = [SReturn (Some (EVar ''x''))]\<rparr>,
      \<lparr>def_name = ''main'', def_args = [], def_statements =
         [SAssign ''x'' (EInt 5), SReturn (Some (EFcall ''foo'' []))]\<rparr>]"

text \<open>
  A state inside \<open>main\<close> after \<open>x = 5\<close>: the closure 0 is
  \<open>lambda(p) { return x; }\<close> with the captured variable \<open>k\<close>; the function table
  has it as \<open>foo\<close>, the variable \<open>g\<close> holds it, and it is the field \<open>m\<close> of the
  object that \<open>o\<close> holds.
\<close>

definition scoped_call_state :: state where
  "scoped_call_state =
     \<lparr>environment = [[], [(''x'', 1), (''g'', 2), (''o'', 4)]],
      st_heap =
        \<lparr>vals = [create_value_nil,
                 \<lparr>val_t = TINT, val_v = PInt 5\<rparr>,
                 \<lparr>val_t = TCLOSURE, val_v = PClo 0\<rparr>,
                 \<lparr>val_t = TINT, val_v = PInt 9\<rparr>,
                 \<lparr>val_t = TOBJECT, val_v = PObj 0\<rparr>,
                 \<lparr>val_t = TCLOSURE, val_v = PClo 0\<rparr>],
         objs = [\<lparr>obj_values = [(''m'', 5)], obj_type = TOBJECT, obj_proto = None\<rparr>],
         clos = [\<lparr>clo_captured_env = [(''k'', 3)],
                  clo_func_ast = \<lparr>ast_args = [Arg ''p''],
                                  ast_statements = [SReturn (Some (EVar ''x''))]\<rparr>,
                  clo_type = TCLOSURE\<rparr>]\<rparr>,
      st_output = [], st_input = []\<rparr>"

definition scoped_call_table :: ftable where
  "scoped_call_table = [(''foo'', [(1, 0)])]"

text \<open>That state once the argument \<open>7\<close> of a call is evaluated and copied.\<close>

definition scoped_call_state_args :: state where
  "scoped_call_state_args =
     scoped_call_state\<lparr>st_heap := (st_heap scoped_call_state)\<lparr>vals :=
        vals (st_heap scoped_call_state)
          @ [\<lparr>val_t = TINT, val_v = PInt 7\<rparr>, \<lparr>val_t = TINT, val_v = PInt 7\<rparr>]\<rparr>\<rparr>"

text \<open>The initial state after \<open>lambda() { }\<close>, and after \<open>3\<close>, is evaluated in it.\<close>

definition one_closure_state :: state where
  "one_closure_state =
     initial_state\<lparr>st_heap := initial_heap\<lparr>vals := vals initial_heap
                       @ [\<lparr>val_t = TCLOSURE, val_v = PClo 0\<rparr>],
                     clos := [\<lparr>clo_captured_env = [],
                              clo_func_ast = \<lparr>ast_args = [], ast_statements = []\<rparr>,
                              clo_type = TCLOSURE\<rparr>]\<rparr>\<rparr>"

definition one_int_state :: state where
  "one_int_state =
     initial_state\<lparr>st_heap := initial_heap\<lparr>vals := vals initial_heap
                       @ [\<lparr>val_t = TINT, val_v = PInt 3\<rparr>]\<rparr>\<rparr>"

text \<open>\<open>func f(ref o) { return o; }  func main() { a = @; b = f(a); return a == b; }\<close>\<close>

definition return_identity_program :: "func_def list" where
  "return_identity_program =
     [\<lparr>def_name = ''f'', def_args = [Refarg ''o''],
       def_statements = [SReturn (Some (EVar ''o''))]\<rparr>,
      \<lparr>def_name = ''main'', def_args = [], def_statements =
         [SAssign ''a'' EObj, SAssign ''b'' (EFcall ''f'' [EVar ''a'']),
          SReturn (Some (EBinop Eq (EVar ''a'') (EVar ''b'')))]\<rparr>]"

text \<open>The initial state after \<open>@\<close> is evaluated in it: one object, one \<open>Value\<close> holding it.\<close>

definition one_object_state :: state where
  "one_object_state =
     initial_state\<lparr>st_heap := initial_heap\<lparr>vals := vals initial_heap
                       @ [\<lparr>val_t = TOBJECT, val_v = PObj 0\<rparr>],
                     objs := [empty_object]\<rparr>\<rparr>"

text \<open>\<open>i = 0; while (true) { if (i == 0) { return 1; } }\<close>: a return two blocks deep.\<close>

definition early_return_statements :: "stmt list" where
  "early_return_statements =
     [SAssign ''i'' (EInt 0),
      SWhile (EBool True)
        [SIf (EBinop Eq (EVar ''i'') (EInt 0)) [SReturn (Some (EInt 1))] None]]"

text \<open>
  A method made inside a method captures \<open>this\<close>:
  \<open>func main() { a = @; b = @; a.mk = lambda() { this.f = lambda() { this.tag = 7; }; };
  a.mk(); b.f = a.f; b.f(); return a.tag; }\<close>
\<close>

definition this_capture_program :: "func_def list" where
  "this_capture_program =
     [\<lparr>def_name = ''main'', def_args = [], def_statements =
        [SAssign ''a'' EObj,
         SAssign ''b'' EObj,
         SAssign ''a.mk''
           (ELambda [] [SAssign ''this.f'' (ELambda [] [SAssign ''this.tag'' (EInt 7)])]),
         SMcall ''a'' ''mk'' [],
         SAssign ''b.f'' (EVar ''a.f''),
         SMcall ''b'' ''f'' [],
         SReturn (Some (EVar ''a.tag''))]\<rparr>]"

text \<open>
  The heap after \<open>a = @; b = @; a.proto = b; b.proto = a;\<close>: two objects, each the
  prototype of the other.
\<close>

definition cyclic_heap :: heap where
  "cyclic_heap =
     \<lparr>vals = [create_value_nil,
              \<lparr>val_t = TOBJECT, val_v = PObj 0\<rparr>, \<lparr>val_t = TOBJECT, val_v = PObj 1\<rparr>,
              \<lparr>val_t = TOBJECT, val_v = PObj 1\<rparr>, \<lparr>val_t = TOBJECT, val_v = PObj 0\<rparr>],
      objs = [\<lparr>obj_values = [], obj_type = TOBJECT, obj_proto = Some 3\<rparr>,
              \<lparr>obj_values = [], obj_type = TOBJECT, obj_proto = Some 4\<rparr>],
      clos = []\<rparr>"

text \<open>
  A state in which \<open>d\<close> holds object 0, whose prototype is object 1, whose field \<open>m\<close> is
  the closure of \<open>lambda() { this.x = 1; }\<close> and whose field \<open>v\<close> is the integer 5.
\<close>

definition shared_method_state :: state where
  "shared_method_state =
     \<lparr>environment = [[(''d'', 1)]],
      st_heap =
        \<lparr>vals = [create_value_nil,
                 \<lparr>val_t = TOBJECT, val_v = PObj 0\<rparr>, \<lparr>val_t = TOBJECT, val_v = PObj 1\<rparr>,
                 \<lparr>val_t = TCLOSURE, val_v = PClo 0\<rparr>, \<lparr>val_t = TINT, val_v = PInt 5\<rparr>],
         objs = [\<lparr>obj_values = [], obj_type = TOBJECT, obj_proto = Some 2\<rparr>,
                 \<lparr>obj_values = [(''m'', 3), (''v'', 4)], obj_type = TOBJECT,
                  obj_proto = None\<rparr>],
         clos = [\<lparr>clo_captured_env = [],
                  clo_func_ast = \<lparr>ast_args = [],
                                  ast_statements = [SAssign ''this.x'' (EInt 1)]\<rparr>,
                  clo_type = TCLOSURE\<rparr>]\<rparr>,
      st_output = [], st_input = []\<rparr>"

section \<open>Unfolding and evaluation rules\<close>

lemma bindE_Inl [simp]: "bindE (Inl e) f = Inl e"
  by (simp add: bindE_def)

lemma bindE_Inr [simp]: "bindE (Inr (a, st)) f = f a st"
  by (simp add: bindE_def)

lemma bindE_cong_weak: "m = m' \<Longrightarrow> bindE m f = bindE m' f"
  by simp

text \<open>
  With these two congruence rules the simplifier evaluates a step before it looks at what
  follows it, as the interpreter does.
\<close>

lemmas eval_congs = bindE_cong_weak prod.case_cong_weak

lemma eval_expr_0: "eval_expr 0 ft e st = Inl OUT_OF_FUEL"
  by (simp add: eval_expr_def)

lemma run_statements_0: "run_statements 0 ft ss st = Inl OUT_OF_FUEL"
  by (simp add: run_statements_def)

lemma eval_expr_Suc:
  "eval_expr (Suc n) ft e st = eval_expr_step n (eval_expr n ft) (run_statements n ft) ft e st"
  by (simp add: eval_expr_def run_statements_def)

lemma run_statements_Suc:
  "run_statements (Suc n) ft ss st =
     run_statements_step n (eval_expr n ft) (run_statements n ft) ft ss st"
  by (simp add: eval_expr_def run_statements_def)

lemma eval_expr_numeral:
  "eval_expr (numeral k) ft e st =
     eval_expr_step (pred_numeral k) (eval_expr (pred_numeral k) ft)
       (run_statements (pred_numeral k) ft) ft e st"
  by (simp add: numeral_eq_Suc eval_expr_Suc)

lemma run_statements_numeral:
  "run_statements (numeral k) ft ss st =
     run_statements_step (pred_numeral k) (eval_expr (pred_numeral k) ft)
       (run_statements (pred_numeral k) ft) ft ss st"
  by (simp add: numeral_eq_Suc run_statements_Suc)

lemma deepcopy_value_numeral:
  "deepcopy_value (numeral k) a m h = deepcopy_value_step (deepcopy_value (pred_numeral k)) a m h"
  by (simp add: numeral_eq_Suc)

lemma do_while_numeral:
  "do_while (numeral k) ev rn cond_ast statements st =
     bindE (ev cond_ast st) (\<lambda>x st1.
       case condition (vals (st_heap st1) ! x) of
         Inl e \<Rightarrow> Inl e
       | Inr True \<Rightarrow>
           bindE (rn statements st1) (\<lambda>r st2.
             if fst r = RETURN then Inr (r, st2)
             else if run_while_value (vals (st_heap st1) ! x) x st2
             then do_while (pred_numeral k) ev rn cond_ast statements st2
             else Inr ((CONTINUE, NIL_VALUE), st2))
       | Inr False \<Rightarrow> Inr ((CONTINUE, NIL_VALUE), st1))"
  by (simp add: numeral_eq_Suc)

lemma method_loop_numeral:
  "method_loop (numeral k) h closure_name target_closure curr_proto =
     (case curr_proto of
        None \<Rightarrow> Inr target_closure
      | Some cp \<Rightarrow>
          if target_closure \<noteq> None then Inr target_closure
          else (case val_v (vals h ! cp) of
                  PObj a \<Rightarrow>
                    method_loop (pred_numeral k) h closure_name
                      (dict_get (obj_values (objs h ! a)) closure_name)
                      (obj_proto (objs h ! a))
                | _ \<Rightarrow> Inl (PY_EXCEPTION ''AttributeError'')))"
  by (simp add: numeral_eq_Suc)

lemma get_property_or_method_numeral:
  "get_property_or_method (numeral k) h obj name =
     (case val_v (vals h ! obj) of
        PObj a \<Rightarrow>
          (case dict_get (obj_values (objs h ! a)) name of
             Some x \<Rightarrow> Inr x
           | None \<Rightarrow>
               (case obj_proto (objs h ! a) of
                  None \<Rightarrow> Inl NAME_ERROR
                | Some pr \<Rightarrow>
                    if val_t (vals h ! pr) = TOBJECT
                    then get_property_or_method (pred_numeral k) h pr name
                    else Inl NAME_ERROR))
      | _ \<Rightarrow> Inl (PY_EXCEPTION ''AttributeError''))"
  by (simp add: numeral_eq_Suc)

lemmas fuel_simps =
  eval_expr_0 run_statements_0 eval_expr_Suc run_statements_Suc eval_expr_numeral
  run_statements_numeral deepcopy_value_numeral do_while_numeral method_loop_numeral
  get_property_or_method_numeral

lemmas interp_defs =
  eval_expr_step_def run_statements_step_def run_statement_def call_func_with_def
  call_method_with_def call_print_def call_input_def read_input_def run_body_def
  prepare_params_def prepare_env_with_closed_variables_def
  assign_with_def assign_target_def set_var_def set_proto_def set_payload_type_def
  eval_op_def eval_unary_def eval_lambda_def eval_obj_def eval_name_def do_return_def do_if_def
  condition_def get_func_by_name_def closure_init_def alloc_value_def pop_scope_def
  push_scope_def new_value_def new_object_def new_closure_def copy_value_def empty_object_def
  NIL_VALUE_def deepcopy_def deepcopy_value_step_def deepcopy_payload_def deepcopy_object_def
  deepcopy_closure_def empty_memo_def
  env_get_def env_set_def env_push_def env_pop_def env_enumerate_def set_innermost_def
  dict_get_def dict_has_def
  eval_op_values_def bin_op_promotion_def compatible_types_def op_to_lambda_def eq_lambda_def
  neq_lambda_def int_to_bool_def bool_to_int_def unary_op_promotion_def wrap_def py_arith_def
  py_floordiv_def py_compare_def py_and_def py_or_def py_neg_def py_not_def get_printable_def
  str_int_def split_name_def result_value_def returned_value_def initial_state_def
  initial_heap_def create_value_nil_def NIL_DEF_def run_while_value_def Let_def

section \<open>Theorems: EnvironmentManager\<close>

lemma dict_get_dict_set:
  "dict_get (dict_set d k x) k' = (if k' = k then Some x else dict_get d k')"
  by (induction d k x rule: dict_set.induct) (auto simp: dict_get_def)

lemma dict_has_dict_set: "dict_has (dict_set d k x) k' = (k' = k \<or> dict_has d k')"
  by (simp add: dict_has_def dict_get_dict_set)

lemma get_loop_skip:
  "\<forall>e \<in> set inner. \<not> dict_has e s \<Longrightarrow> get_loop (inner @ rest) s = get_loop rest s"
  by (induction inner) auto

lemma set_loop_skip:
  "\<forall>e \<in> set inner. \<not> dict_has e s \<Longrightarrow>
   set_loop (inner @ rest) s x = map_option ((@) inner) (set_loop rest s x)"
  by (cases "set_loop rest s x") (induction inner; simp)+

lemma set_loop_none: "\<forall>e \<in> set es. \<not> dict_has e s \<Longrightarrow> set_loop es s x = None"
  by (induction es) auto


text \<open>
  C6. \<open>set(name, value)\<close> overwrites the binding in the nearest enclosing scope that has the
  name (the scopes further in do not have it), and creates the binding in the innermost
  scope when no scope has it; \<open>get(name)\<close> returns the binding of the nearest enclosing
  scope that has the name, or nothing when none has it. A later \<open>get\<close> sees what \<open>set\<close>
  stored.
\<close>

theorem env_set_get_nearest_scope:
  "(dict_has d s \<and> (\<forall>e \<in> set inner. \<not> dict_has e s) \<longrightarrow>
      env_set (outer @ d # inner) s x False = Inr (outer @ dict_set d s x # inner)
      \<and> map fst (dict_set d s x) = map fst d
      \<and> env_get (outer @ d # inner) s = dict_get d s
      \<and> env_get (outer @ dict_set d s x # inner) s = Some x)
   \<and> ((\<forall>e \<in> set (outer @ [d]). \<not> dict_has e s) \<longrightarrow>
      env_set (outer @ [d]) s x False = Inr (outer @ [dict_set d s x])
      \<and> env_get (outer @ [d]) s = None
      \<and> env_get (outer @ [dict_set d s x]) s = Some x)"
proof (intro conjI impI)
  assume h: "dict_has d s \<and> (\<forall>e \<in> set inner. \<not> dict_has e s)"
  then have inner: "\<forall>e \<in> set (rev inner). \<not> dict_has e s" by simp
  show "env_set (outer @ d # inner) s x False = Inr (outer @ dict_set d s x # inner)"
    using h by (simp add: env_set_def set_loop_skip [OF inner])
  show "map fst (dict_set d s x) = map fst d"
    using h by (induction d s x rule: dict_set.induct) (auto simp: dict_has_def dict_get_def)
  show "env_get (outer @ d # inner) s = dict_get d s"
    using h by (simp add: env_get_def get_loop_skip [OF inner])
  show "env_get (outer @ dict_set d s x # inner) s = Some x"
    by (simp add: env_get_def get_loop_skip [OF inner] dict_has_dict_set dict_get_dict_set)
next
  assume h: "\<forall>e \<in> set (outer @ [d]). \<not> dict_has e s"
  then have all: "\<forall>e \<in> set (rev (outer @ [d])). \<not> dict_has e s" by simp
  show "env_set (outer @ [d]) s x False = Inr (outer @ [dict_set d s x])"
    using set_loop_none [OF all, of x] by (simp add: env_set_def set_innermost_def)
  have "get_loop (rev (outer @ [d]) @ []) s = get_loop [] s"
    by (rule get_loop_skip [OF all])
  then show "env_get (outer @ [d]) s = None"
    by (simp add: env_get_def)
  show "env_get (outer @ [dict_set d s x]) s = Some x"
    by (simp add: env_get_def dict_has_dict_set dict_get_dict_set)
qed

theorem env_set_get_nearest_scope_witness:
  "env_set [[(''x'', 1::nat)], [(''y'', 2)], [(''z'', 3)]] ''y'' 9 False
     = Inr [[(''x'', 1)], [(''y'', 9)], [(''z'', 3)]]
   \<and> env_get [[(''x'', 1::nat)], [(''y'', 2)], [(''z'', 3)]] ''y'' = Some 2
   \<and> env_set [[(''x'', 1::nat)], []] ''w'' 9 False = Inr [[(''x'', 1)], [(''w'', 9)]]
   \<and> env_get [[(''x'', 1::nat)], []] ''w'' = None"
  using env_set_get_nearest_scope [of "[(''y'', 2::nat)]" "''y''" "[[(''z'', 3)]]" "[[(''x'', 1)]]" 9]
    env_set_get_nearest_scope [of "[]" "''w''" "[]" "[[(''x'', 1::nat)]]" 9]
  by (simp add: dict_has_def dict_get_def)

section \<open>Theorems: operators\<close>

lemma eval_op_values_div:
  "b \<noteq> 0 \<Longrightarrow>
   eval_op_values Div \<lparr>val_t = TINT, val_v = PInt a\<rparr> \<lparr>val_t = TINT, val_v = PInt b\<rparr>
     = Inr \<lparr>val_t = TINT, val_v = PInt (a div b)\<rparr>"
  by (simp add: eval_op_values_def bin_op_promotion_def compatible_types_def op_to_lambda_def
      wrap_def py_floordiv_def)

text \<open>
  C9. For integers \<open>a\<close> and \<open>b\<close> with \<open>b\<close> not zero, \<open>a / b\<close> is the floor of the
  quotient: on the two \<open>Value\<close>s, and as an expression of two integer literals evaluated in
  any state.
\<close>

theorem int_division_floors:
  assumes "b \<noteq> 0"
  shows "eval_op_values Div \<lparr>val_t = TINT, val_v = PInt a\<rparr> \<lparr>val_t = TINT, val_v = PInt b\<rparr>
           = Inr \<lparr>val_t = TINT, val_v = PInt \<lfloor>real_of_int a / real_of_int b\<rfloor>\<rparr>
         \<and> result_value (eval_expr (Suc (Suc n)) ft (EBinop Div (EInt a) (EInt b)) st)
           = Inr \<lparr>val_t = TINT, val_v = PInt \<lfloor>real_of_int a / real_of_int b\<rfloor>\<rparr>"
proof -
  have fl: "\<lfloor>real_of_int a / real_of_int b\<rfloor> = a div b"
    by (rule floor_divide_of_int_eq)
  have "result_value (eval_expr (Suc (Suc n)) ft (EBinop Div (EInt a) (EInt b)) st)
          = Inr \<lparr>val_t = TINT, val_v = PInt (a div b)\<rparr>"
    by (simp add: eval_expr_Suc eval_expr_step_def eval_op_def alloc_value_def new_value_def
        eval_op_values_div [OF assms] result_value_def nth_append)
  then show ?thesis
    by (simp add: fl eval_op_values_div [OF assms])
qed

text \<open>The witness of C9: \<open>-7 / 2\<close> is \<open>-4\<close> and \<open>10 / 4\<close> is \<open>2\<close>.\<close>

theorem int_division_floors_witness:
  "(2::int) \<noteq> 0
   \<and> result_value (eval_expr 2 [] (EBinop Div (EInt (- 7)) (EInt 2)) initial_state)
       = Inr \<lparr>val_t = TINT, val_v = PInt (- 4)\<rparr>
   \<and> (4::int) \<noteq> 0
   \<and> result_value (eval_expr 2 [] (EBinop Div (EInt 10) (EInt 4)) initial_state)
       = Inr \<lparr>val_t = TINT, val_v = PInt 2\<rparr>"
  using int_division_floors [of 2 "- 7" 0 "[]" initial_state]
    int_division_floors [of 4 10 0 "[]" initial_state]
  by (simp add: numeral_2_eq_2)

text \<open>With the unary minus the parser produces for \<open>-7\<close>.\<close>

lemma negated_literal_division:
  "result_value (eval_expr 3 [] (EBinop Div (ENeg (EInt 7)) (EInt 2)) initial_state)
     = Inr \<lparr>val_t = TINT, val_v = PInt (- 4)\<rparr>"
  supply eval_congs [cong]
  by (simp add: fuel_simps interp_defs)

text \<open>
  C3, as the code has it. For two operands of different types, neither an object, that are
  not an integer and a boolean, \<open>==\<close> is false and \<open>!=\<close> is true, without an error. For an
  integer and a boolean the integer is first coerced to a boolean (nonzero is true) and the
  two booleans are compared: \<open>i == b\<close> is true exactly when \<open>i\<close> is nonzero and \<open>b\<close> is
  true, or \<open>i\<close> is zero and \<open>b\<close> is false.
\<close>

theorem mismatched_types_equality:
  "(type_of_payload p \<noteq> TOBJECT \<and> type_of_payload q \<noteq> TOBJECT
      \<and> type_of_payload p \<noteq> type_of_payload q
      \<and> {type_of_payload p, type_of_payload q} \<noteq> {TINT, TBOOL} \<longrightarrow>
        eval_op_values Eq (mk_value p) (mk_value q) = Inr (mk_value (PBool False))
      \<and> eval_op_values Neq (mk_value p) (mk_value q) = Inr (mk_value (PBool True)))
   \<and> eval_op_values Eq (mk_value (PInt i)) (mk_value (PBool b))
       = Inr (mk_value (PBool ((i \<noteq> 0) = b)))
   \<and> eval_op_values Eq (mk_value (PBool b)) (mk_value (PInt i))
       = Inr (mk_value (PBool (b = (i \<noteq> 0))))
   \<and> eval_op_values Neq (mk_value (PInt i)) (mk_value (PBool b))
       = Inr (mk_value (PBool ((i \<noteq> 0) \<noteq> b)))
   \<and> eval_op_values Neq (mk_value (PBool b)) (mk_value (PInt i))
       = Inr (mk_value (PBool (b \<noteq> (i \<noteq> 0))))"
  by (cases p; cases q)
     (auto simp: eval_op_values_def bin_op_promotion_def compatible_types_def op_to_lambda_def
        eq_lambda_def neq_lambda_def int_to_bool_def bool_to_int_def mk_value_def
        doubleton_eq_iff)

text \<open>The witness of C3 as amended: a string against an integer.\<close>

theorem mismatched_types_equality_witness:
  "eval_op_values Eq (mk_value (PStr ''5'')) (mk_value (PInt 5)) = Inr (mk_value (PBool False))
   \<and> eval_op_values Neq (mk_value (PStr ''5'')) (mk_value (PInt 5)) = Inr (mk_value (PBool True))"
  using mismatched_types_equality [of "PStr ''5''" "PInt 5" 0 False]
  by (simp add: doubleton_eq_iff)

text \<open>
  The counterexample to C3 as stated: \<open>5 == true\<close> evaluates to the boolean true, not to
  false.
\<close>

theorem mismatched_eq_int_bool_counterexample:
  "result_value (eval_expr 2 [] (EBinop Eq (EInt 5) (EBool True)) initial_state)
     = Inr \<lparr>val_t = TBOOL, val_v = PBool True\<rparr>"
  supply eval_congs [cong]
  by (simp add: fuel_simps interp_defs)

section \<open>Theorems: names and the function table\<close>

lemma overloaded_table_eq:
  "overloaded_table = [(''foo'', [(0, 0), (1, 1)]), (''bar'', [(1, 2)])]"
  supply eval_congs [cong]
  by (simp add: overloaded_table_def overloaded_program_def initial_heap_def new_closure_def
      dict_get_def)

text \<open>
  C10. A bare name (no dot) that no scope binds and that is a key of the function table:
  when the table has exactly one entry (one arity) under the name, evaluating the name
  yields a new \<open>Value\<close> of type closure holding that entry's closure; when it has more than
  one, evaluating the name is a name error.
\<close>

theorem bare_function_name:
  assumes "CHR ''.'' \<notin> set name"
    and "env_get (environment st) name = None"
    and "dict_get ft name = Some candidates"
  shows "(candidates = [(k, c)] \<longrightarrow>
            eval_expr (Suc n) ft (EVar name) st
              = Inr (length (vals (st_heap st)),
                     st\<lparr>st_heap := (st_heap st)\<lparr>vals := vals (st_heap st)
                        @ [\<lparr>val_t = TCLOSURE, val_v = PClo c\<rparr>]\<rparr>\<rparr>))
         \<and> (length candidates > 1 \<longrightarrow>
            eval_expr (Suc n) ft (EVar name) st = Inl NAME_ERROR)"
  using assms
  by (simp add: eval_expr_Suc eval_expr_step_def eval_name_def get_func_by_name_def
      alloc_value_def new_value_def)

text \<open>
  The witness of C10, on the table built from a program: \<open>bar\<close> has one arity, \<open>foo\<close> two.
\<close>

theorem bare_function_name_witness:
  "result_value (eval_expr 1 overloaded_table (EVar ''bar'') overloaded_state)
     = Inr \<lparr>val_t = TCLOSURE, val_v = PClo 2\<rparr>
   \<and> eval_expr 1 overloaded_table (EVar ''foo'') overloaded_state = Inl NAME_ERROR"
  using bare_function_name [of "''bar''" overloaded_state overloaded_table "[(1, 2)]" 1 2 0]
    bare_function_name [of "''foo''" overloaded_state overloaded_table "[(0, 0), (1, 1)]" 0 0 0]
  by (simp add: overloaded_table_eq overloaded_state_def initial_state_def env_get_def
      dict_get_def dict_has_def result_value_def)

section \<open>Theorems: assignment\<close>

lemma split_on_no_separator: "c \<notin> set s \<Longrightarrow> split_on c s = [s]"
  by (induction s) auto

lemma split_on_one_separator:
  "c \<notin> set a \<Longrightarrow> c \<notin> set b \<Longrightarrow> split_on c (a @ c # b) = [a, b]"
  by (induction a) (auto simp: split_on_no_separator)

text \<open>
  Whatever the field and the state: assigning to a field of a name that no scope binds
  raises the host's \<open>AttributeError\<close>; the branch of \<open>__assign\<close> for an unbound target with
  the field \<open>proto\<close> is never reached.
\<close>

lemma assign_field_of_unbound_name:
  assumes "CHR ''.'' \<notin> set var_name" and "CHR ''.'' \<notin> set field" and "field \<noteq> []"
    and "env_get (environment st) var_name = None"
  shows "assign_target (var_name @ CHR ''.'' # field) src st
           = Inl (PY_EXCEPTION ''AttributeError'')"
  using assms
  by (simp add: assign_target_def split_name_def split_on_one_separator)

text \<open>
  C5. The program \<open>func main() { x.proto = @; }\<close>, where \<open>x\<close> is unbound: the run stops
  with the host's \<open>AttributeError\<close>, raised by the test in front of \<open>__assign\<close> that reads
  \<open>target_value_obj.t\<close> of \<open>None\<close>; no object is created for \<open>x\<close>.
\<close>

theorem proto_on_unbound_raises:
  "run_program 3 proto_on_unbound_program [] = Inl (PY_EXCEPTION ''AttributeError'')"
  supply eval_congs [cong]
  by (simp add: run_program_def proto_on_unbound_program_def fuel_simps interp_defs)

text \<open>
  C4, as the code has it. Assigning a value that is not a closure to a variable that holds
  a closure replaces the variable's \<open>Value\<close> in full, and sets the \<open>type\<close> attribute of the
  closure itself to the type of the new value; the closure's captured variables and its
  syntax tree stay as they are, and so does every other \<open>Value\<close>. A function call that
  resolves to this closure, through another variable that holds it or through the function
  table, is then a type error, whatever the arguments.
\<close>

theorem closure_reassign_retags:
  assumes "CHR ''.'' \<notin> set name"
    and "env_get (environment st) name = Some target"
    and "target < length (vals (st_heap st))"
    and "vals (st_heap st) ! target = \<lparr>val_t = TCLOSURE, val_v = PClo c\<rparr>"
    and "c < length (clos (st_heap st))"
    and "val_t (vals (st_heap st) ! src) \<noteq> TCLOSURE"
  shows "\<exists>st'. assign_target name src st = Inr st'
           \<and> environment st' = environment st
           \<and> vals (st_heap st') ! target = vals (st_heap st) ! src
           \<and> clo_type (clos (st_heap st') ! c) = val_t (vals (st_heap st) ! src)
           \<and> clo_captured_env (clos (st_heap st') ! c) = clo_captured_env (clos (st_heap st) ! c)
           \<and> clo_func_ast (clos (st_heap st') ! c) = clo_func_ast (clos (st_heap st) ! c)
           \<and> length (vals (st_heap st')) = length (vals (st_heap st))
           \<and> (\<forall>a. a \<noteq> target \<longrightarrow> vals (st_heap st') ! a = vals (st_heap st) ! a)
           \<and> (\<forall>ft g actual_args n ev rn.
                 g \<noteq> ''print'' \<and> g \<noteq> ''inputi'' \<and> g \<noteq> ''inputs''
                 \<and> get_func_by_name ft g (Some (length actual_args)) st' = Inr (Some c)
                 \<longrightarrow> call_func_with n ev rn ft g actual_args st' = Inl TYPE_ERROR)"
proof -
  from assms have "\<exists>st'. assign_target name src st = Inr st'
           \<and> environment st' = environment st
           \<and> vals (st_heap st') ! target = vals (st_heap st) ! src
           \<and> clo_type (clos (st_heap st') ! c) = val_t (vals (st_heap st) ! src)
           \<and> clo_captured_env (clos (st_heap st') ! c) = clo_captured_env (clos (st_heap st) ! c)
           \<and> clo_func_ast (clos (st_heap st') ! c) = clo_func_ast (clos (st_heap st) ! c)
           \<and> length (vals (st_heap st')) = length (vals (st_heap st))
           \<and> (\<forall>a. a \<noteq> target \<longrightarrow> vals (st_heap st') ! a = vals (st_heap st) ! a)"
    by (simp add: assign_target_def set_payload_type_def Let_def)
  then obtain st' where st': "assign_target name src st = Inr st'"
    "environment st' = environment st"
    "vals (st_heap st') ! target = vals (st_heap st) ! src"
    "clo_type (clos (st_heap st') ! c) = val_t (vals (st_heap st) ! src)"
    "clo_captured_env (clos (st_heap st') ! c) = clo_captured_env (clos (st_heap st) ! c)"
    "clo_func_ast (clos (st_heap st') ! c) = clo_func_ast (clos (st_heap st) ! c)"
    "length (vals (st_heap st')) = length (vals (st_heap st))"
    "\<forall>a. a \<noteq> target \<longrightarrow> vals (st_heap st') ! a = vals (st_heap st) ! a"
    by blast
  from st'(4) assms(6) have tag: "clo_type (clos (st_heap st') ! c) \<noteq> TCLOSURE"
    by simp
  have "call_func_with n ev rn ft g actual_args st' = Inl TYPE_ERROR"
    if "g \<noteq> ''print'' \<and> g \<noteq> ''inputi'' \<and> g \<noteq> ''inputs''
        \<and> get_func_by_name ft g (Some (length actual_args)) st' = Inr (Some c)"
    for ft g actual_args n ev rn
    using that tag by (simp add: call_func_with_def Let_def)
  with st' show ?thesis by blast
qed

text \<open>
  The witness of C4 as amended: \<open>f = 5\<close> where \<open>f\<close> and \<open>g\<close> hold the same closure; the
  call \<open>g()\<close> after it is a type error.
\<close>

theorem closure_reassign_retags_witness:
  "\<exists>st'. assign_target ''f'' 2 retag_state = Inr st'
      \<and> vals (st_heap st') ! 1 = \<lparr>val_t = TINT, val_v = PInt 5\<rparr>
      \<and> clo_type (clos (st_heap st') ! 0) = TINT
      \<and> call_func 1 [] ''g'' [] st' = Inl TYPE_ERROR"
proof -
  from closure_reassign_retags [of "''f''" retag_state 1 0 2]
  obtain st' where st': "assign_target ''f'' 2 retag_state = Inr st'"
    and env: "environment st' = environment retag_state"
    and slot: "vals (st_heap st') ! 1 = vals (st_heap retag_state) ! 2"
    and tag: "clo_type (clos (st_heap st') ! 0) = val_t (vals (st_heap retag_state) ! 2)"
    and ast: "clo_func_ast (clos (st_heap st') ! 0) = clo_func_ast (clos (st_heap retag_state) ! 0)"
    and others: "\<forall>a. a \<noteq> 1 \<longrightarrow> vals (st_heap st') ! a = vals (st_heap retag_state) ! a"
    and call: "\<forall>ft g actual_args n ev rn.
                 g \<noteq> ''print'' \<and> g \<noteq> ''inputi'' \<and> g \<noteq> ''inputs''
                 \<and> get_func_by_name ft g (Some (length actual_args)) st' = Inr (Some 0)
                 \<longrightarrow> call_func_with n ev rn ft g actual_args st' = Inl TYPE_ERROR"
    by (auto simp: retag_state_def env_get_def dict_has_def dict_get_def)
  from others have three: "vals (st_heap st') ! 3 = vals (st_heap retag_state) ! 3"
    by simp
  have "get_func_by_name [] ''g'' (Some (length ([] :: expr list))) st' = Inr (Some 0)"
    by (simp add: get_func_by_name_def env three ast retag_state_def env_get_def dict_has_def
        dict_get_def)
  with call have "call_func 1 [] ''g'' [] st' = Inl TYPE_ERROR"
    by (simp add: call_func_def)
  with st' slot tag show ?thesis
    by (auto simp: retag_state_def)
qed

text \<open>
  The counterexample to C4 as stated: \<open>g\<close> is another alias of the closure first assigned to
  \<open>f\<close>. Without \<open>f = 5\<close> the call \<open>g()\<close> returns 1; with it the call is a type error, the
  closure being no longer tagged as one.
\<close>

theorem closure_alias_counterexample:
  "returned_value (run_program 5 (alias_program False) []) = Inr \<lparr>val_t = TINT, val_v = PInt 1\<rparr>
   \<and> run_program 5 (alias_program True) [] = Inl TYPE_ERROR"
  supply eval_congs [cong]
  by (simp add: run_program_def alias_program_def fuel_simps interp_defs)

section \<open>Theorems: empty scopes, copies of primitive values\<close>

lemma deepcopy_atomic:
  "atomic (val_v (vals h ! a)) \<Longrightarrow>
   deepcopy (Suc n) a h = Inr (length (vals h), h\<lparr>vals := vals h @ [vals h ! a]\<rparr>)"
  by (cases "val_v (vals h ! a)")
     (simp_all add: deepcopy_def deepcopy_value_step_def deepcopy_payload_def empty_memo_def
        dict_get_def new_value_def)

lemma get_loop_drop_empty: "get_loop (xs @ [] # ys) x = get_loop (xs @ ys) x"
  by (induction xs) (simp_all add: dict_has_def dict_get_def)

text \<open>An empty scope anywhere in the chain does not change what a name resolves to.\<close>

lemma env_get_drop_empty [simp]: "env_get (es @ [] # rest) x = env_get (es @ rest) x"
  by (simp add: env_get_def get_loop_drop_empty)

section \<open>Theorems: deep copies and return\<close>

lemma heap_le_refl [simp]: "heap_le h h"
  by (simp add: heap_le_def)

lemma heap_le_trans: "heap_le h1 h2 \<Longrightarrow> heap_le h2 h3 \<Longrightarrow> heap_le h1 h3"
  by (simp add: heap_le_def)

lemma deepcopy_dict_grows:
  assumes rec: "\<And>a m h a' m' h'. rec a m h = Inr (a', m', h') \<Longrightarrow> heap_le h h'"
  shows "deepcopy_dict rec d m h = Inr (d', m', h') \<Longrightarrow> heap_le h h'"
proof (induction d arbitrary: m h d' m' h')
  case Nil
  then show ?case by simp
next
  case (Cons kv d)
  obtain k a where kv: "kv = (k, a)" by (cases kv)
  from Cons.prems obtain a1 m1 h1 d2 where
    r1: "rec a m h = Inr (a1, m1, h1)" and r2: "deepcopy_dict rec d m1 h1 = Inr (d2, m', h')"
    by (auto simp: kv split: sum.splits)
  from rec [OF r1] Cons.IH [OF r2] show ?case by (rule heap_le_trans)
qed

lemma deepcopy_proto_grows:
  assumes rec: "\<And>a m h a' m' h'. rec a m h = Inr (a', m', h') \<Longrightarrow> heap_le h h'"
  shows "deepcopy_proto rec pr m h = Inr (pr', m', h') \<Longrightarrow> heap_le h h'"
  by (cases pr) (auto split: sum.splits dest: rec)

lemma deepcopy_object_grows:
  assumes rec: "\<And>a m h a' m' h'. rec a m h = Inr (a', m', h') \<Longrightarrow> heap_le h h'"
    and ret: "deepcopy_object rec a m h = Inr (a', m', h')"
  shows "heap_le h h'"
proof (cases "dict_get (memo_objs m) a")
  case (Some b)
  with ret show ?thesis by (simp add: deepcopy_object_def)
next
  case None
  let ?h1 = "h\<lparr>objs := objs h @ [objs h ! a]\<rparr>"
  from ret None obtain d m2 h2 pr h3 where
    d: "deepcopy_dict rec (obj_values (objs h ! a))
          (m\<lparr>memo_objs := dict_set (memo_objs m) a (length (objs h))\<rparr>) ?h1 = Inr (d, m2, h2)"
    and p: "deepcopy_proto rec (obj_proto (objs h ! a)) m2 h2 = Inr (pr, m', h3)"
    and h': "h' = h3\<lparr>objs := (objs h3)[length (objs h) :=
               \<lparr>obj_values = d, obj_type = obj_type (objs h ! a), obj_proto = pr\<rparr>]\<rparr>"
    by (auto simp: deepcopy_object_def new_object_def split: sum.splits)
  have "heap_le h ?h1" by (simp add: heap_le_def)
  moreover have "heap_le ?h1 h2" by (rule deepcopy_dict_grows [OF rec d])
  moreover have "heap_le h2 h3" by (rule deepcopy_proto_grows [OF rec p])
  moreover have "heap_le h3 h'" by (simp add: h' heap_le_def)
  ultimately show ?thesis by (blast intro: heap_le_trans)
qed

lemma deepcopy_closure_grows:
  assumes rec: "\<And>a m h a' m' h'. rec a m h = Inr (a', m', h') \<Longrightarrow> heap_le h h'"
    and ret: "deepcopy_closure rec a m h = Inr (a', m', h')"
  shows "heap_le h h'"
proof (cases "dict_get (memo_clos m) a")
  case (Some b)
  with ret show ?thesis by (simp add: deepcopy_closure_def)
next
  case None
  let ?h1 = "h\<lparr>clos := clos h @ [clos h ! a]\<rparr>"
  from ret None obtain d h2 where
    d: "deepcopy_dict rec (clo_captured_env (clos h ! a))
          (m\<lparr>memo_clos := dict_set (memo_clos m) a (length (clos h))\<rparr>) ?h1 = Inr (d, m', h2)"
    and h': "h' = h2\<lparr>clos := (clos h2)[length (clos h) :=
               \<lparr>clo_captured_env = d, clo_func_ast = clo_func_ast (clos h ! a),
                clo_type = clo_type (clos h ! a)\<rparr>]\<rparr>"
    by (auto simp: deepcopy_closure_def new_closure_def split: sum.splits)
  have "heap_le h ?h1" by (simp add: heap_le_def)
  moreover have "heap_le ?h1 h2" by (rule deepcopy_dict_grows [OF rec d])
  moreover have "heap_le h2 h'" by (simp add: h' heap_le_def)
  ultimately show ?thesis by (blast intro: heap_le_trans)
qed

lemma deepcopy_payload_grows:
  assumes rec: "\<And>a m h a' m' h'. rec a m h = Inr (a', m', h') \<Longrightarrow> heap_le h h'"
    and ret: "deepcopy_payload rec p m h = Inr (p', m', h')"
  shows "heap_le h h'"
  using ret
  by (cases p)
     (auto simp: deepcopy_payload_def split: sum.splits
        intro: deepcopy_object_grows [OF rec] deepcopy_closure_grows [OF rec])

lemma deepcopy_value_step_grows:
  assumes rec: "\<And>a m h a' m' h'. rec a m h = Inr (a', m', h') \<Longrightarrow> heap_le h h'"
    and ret: "deepcopy_value_step rec a m h = Inr (a', m', h')"
  shows "heap_le h h'"
proof (cases "dict_get (memo_vals m) a")
  case (Some b)
  with ret show ?thesis by (simp add: deepcopy_value_step_def)
next
  case None
  let ?h1 = "h\<lparr>vals := vals h @ [vals h ! a]\<rparr>"
  from ret None obtain p h2 where
    p: "deepcopy_payload rec (val_v (vals h ! a))
          (m\<lparr>memo_vals := dict_set (memo_vals m) a (length (vals h))\<rparr>) ?h1 = Inr (p, m', h2)"
    and h': "h' = h2\<lparr>vals := (vals h2)[length (vals h) :=
               \<lparr>val_t = val_t (vals h ! a), val_v = p\<rparr>]\<rparr>"
    by (auto simp: deepcopy_value_step_def new_value_def split: sum.splits)
  have "heap_le h ?h1" by (simp add: heap_le_def)
  moreover have "heap_le ?h1 h2" by (rule deepcopy_payload_grows [OF rec p])
  moreover have "heap_le h2 h'" by (simp add: h' heap_le_def)
  ultimately show ?thesis by (blast intro: heap_le_trans)
qed

lemma deepcopy_value_grows:
  "deepcopy_value n a m h = Inr (a', m', h') \<Longrightarrow> heap_le h h'"
proof (induction n arbitrary: a m h a' m' h')
  case 0
  then show ?case by simp
next
  case (Suc n)
  from Suc.prems have "deepcopy_value_step (deepcopy_value n) a m h = Inr (a', m', h')"
    by simp
  then show ?case
    by (rule deepcopy_value_step_grows [rotated]) (rule Suc.IH)
qed

text \<open>The copy of a value that holds an object or a closure holds a new one.\<close>

lemma deepcopy_reference_fresh:
  assumes ret: "deepcopy n x h = Inr (r, h')"
  shows "r = length (vals h) \<and> val_t (vals h' ! r) = val_t (vals h ! x)
         \<and> (\<forall>a. val_v (vals h ! x) = PObj a \<longrightarrow> val_v (vals h' ! r) = PObj (length (objs h)))
         \<and> (\<forall>a. val_v (vals h ! x) = PClo a \<longrightarrow> val_v (vals h' ! r) = PClo (length (clos h)))
         \<and> (atomic (val_v (vals h ! x)) \<longrightarrow> val_v (vals h' ! r) = val_v (vals h ! x))"
proof (cases n)
  case 0
  with ret show ?thesis by (simp add: deepcopy_def)
next
  case (Suc k)
  let ?h1 = "h\<lparr>vals := vals h @ [vals h ! x]\<rparr>"
  let ?m1 = "empty_memo\<lparr>memo_vals := dict_set (memo_vals empty_memo) x (length (vals h))\<rparr>"
  have rec: "\<And>a m h a' m' h'. deepcopy_value k a m h = Inr (a', m', h') \<Longrightarrow> heap_le h h'"
    by (rule deepcopy_value_grows)
  from ret Suc obtain p m2 h2 where
    p: "deepcopy_payload (deepcopy_value k) (val_v (vals h ! x)) ?m1 ?h1 = Inr (p, m2, h2)"
    and r: "r = length (vals h)"
    and h': "h' = h2\<lparr>vals := (vals h2)[length (vals h) :=
               \<lparr>val_t = val_t (vals h ! x), val_v = p\<rparr>]\<rparr>"
    by (auto simp: deepcopy_def deepcopy_value_step_def new_value_def empty_memo_def
        dict_get_def split: sum.splits)
  have "heap_le ?h1 h2" by (rule deepcopy_payload_grows [OF rec p])
  then have len: "length (vals h) < length (vals h2)" by (simp add: heap_le_def)
  have cell: "vals h' ! r = \<lparr>val_t = val_t (vals h ! x), val_v = p\<rparr>"
    using len by (simp add: h' r)
  have obj: "p = PObj (length (objs h))" if "val_v (vals h ! x) = PObj a" for a
    using p that
    by (auto simp: deepcopy_payload_def deepcopy_object_def new_object_def empty_memo_def
        dict_get_def split: sum.splits)
  have clo: "p = PClo (length (clos h))" if "val_v (vals h ! x) = PClo a" for a
    using p that
    by (auto simp: deepcopy_payload_def deepcopy_closure_def new_closure_def empty_memo_def
        dict_get_def split: sum.splits)
  have atom: "p = val_v (vals h ! x)" if "atomic (val_v (vals h ! x))"
    using p that by (cases "val_v (vals h ! x)") (auto simp: deepcopy_payload_def)
  show ?thesis using r cell obj clo atom by simp
qed


text \<open>
  C2, as the code has it. A \<open>return\<close> with an expression yields a deep copy of the value
  the expression evaluates to: always a new \<open>Value\<close> of the same type. A primitive payload
  is the same in the copy, and such a return always succeeds. An \<open>Object\<close> or \<open>Closure\<close>
  payload is copied too: the returned \<open>Value\<close> holds a new heap object, different from the
  one the expression evaluated to.
\<close>

theorem return_deep_copies:
  assumes "ev e st = Inr (x, st1)"
  shows "(atomic (val_v (vals (st_heap st1) ! x)) \<longrightarrow>
            do_return (Suc n) ev (Some e) st
              = Inr ((RETURN, length (vals (st_heap st1))),
                     st1\<lparr>st_heap := (st_heap st1)\<lparr>vals := vals (st_heap st1)
                        @ [vals (st_heap st1) ! x]\<rparr>\<rparr>))
         \<and> (\<forall>res st'. do_return n ev (Some e) st = Inr (res, st') \<longrightarrow>
               res = (RETURN, length (vals (st_heap st1)))
               \<and> val_t (vals (st_heap st') ! snd res) = val_t (vals (st_heap st1) ! x)
               \<and> (\<forall>a. val_v (vals (st_heap st1) ! x) = PObj a \<longrightarrow>
                     val_v (vals (st_heap st') ! snd res) = PObj (length (objs (st_heap st1)))
                     \<and> (a < length (objs (st_heap st1)) \<longrightarrow>
                          val_v (vals (st_heap st') ! snd res) \<noteq> PObj a))
               \<and> (\<forall>a. val_v (vals (st_heap st1) ! x) = PClo a \<longrightarrow>
                     val_v (vals (st_heap st') ! snd res) = PClo (length (clos (st_heap st1)))
                     \<and> (a < length (clos (st_heap st1)) \<longrightarrow>
                          val_v (vals (st_heap st') ! snd res) \<noteq> PClo a)))"
proof (intro conjI allI impI)
  assume "atomic (val_v (vals (st_heap st1) ! x))"
  then show "do_return (Suc n) ev (Some e) st
      = Inr ((RETURN, length (vals (st_heap st1))),
             st1\<lparr>st_heap := (st_heap st1)\<lparr>vals := vals (st_heap st1)
                @ [vals (st_heap st1) ! x]\<rparr>\<rparr>)"
    by (simp add: do_return_def assms deepcopy_atomic)
next
  fix res st'
  assume ret: "do_return n ev (Some e) st = Inr (res, st')"
  then obtain r h where dc: "deepcopy n x (st_heap st1) = Inr (r, h)"
    and res: "res = (RETURN, r)" and st': "st' = st1\<lparr>st_heap := h\<rparr>"
    by (auto simp: do_return_def assms split: sum.splits)
  note fresh = deepcopy_reference_fresh [OF dc]
  show "res = (RETURN, length (vals (st_heap st1)))"
    using fresh by (auto simp: res)
  show "val_t (vals (st_heap st') ! snd res) = val_t (vals (st_heap st1) ! x)"
    using fresh by (auto simp: res st')
  { fix a
    assume "val_v (vals (st_heap st1) ! x) = PObj a"
    then show "val_v (vals (st_heap st') ! snd res) = PObj (length (objs (st_heap st1)))"
      using fresh by (auto simp: res st')
    then show "val_v (vals (st_heap st') ! snd res) \<noteq> PObj a"
      if "a < length (objs (st_heap st1))" using that by simp }
  { fix a
    assume "val_v (vals (st_heap st1) ! x) = PClo a"
    then show "val_v (vals (st_heap st') ! snd res) = PClo (length (clos (st_heap st1)))"
      using fresh by (auto simp: res st')
    then show "val_v (vals (st_heap st') ! snd res) \<noteq> PClo a"
      if "a < length (clos (st_heap st1))" using that by simp }
qed

text \<open>The witness of C2 as amended: \<open>return @;\<close>, \<open>return lambda() { };\<close> and \<open>return 3;\<close>.\<close>

theorem return_deep_copies_witness:
  "(\<exists>st'. do_return 2 (eval_expr 1 []) (Some EObj) initial_state = Inr ((RETURN, 2), st')
      \<and> vals (st_heap st') ! 2 = \<lparr>val_t = TOBJECT, val_v = PObj 1\<rparr>)
   \<and> (\<exists>st'. do_return 2 (eval_expr 1 []) (Some (ELambda [] [])) initial_state
               = Inr ((RETURN, 2), st')
      \<and> vals (st_heap st') ! 2 = \<lparr>val_t = TCLOSURE, val_v = PClo 1\<rparr>)
   \<and> returned_value (do_return 2 (eval_expr 1 []) (Some (EInt 3)) initial_state)
       = Inr \<lparr>val_t = TINT, val_v = PInt 3\<rparr>"
proof -
  have ev: "eval_expr 1 [] EObj initial_state = Inr (1, one_object_state)"
    by (simp add: fuel_simps interp_defs one_object_state_def)
  have "\<exists>st'. do_return 2 (eval_expr 1 []) (Some EObj) initial_state = Inr ((RETURN, 2), st')"
    supply eval_congs [cong]
    by (simp add: fuel_simps interp_defs deepcopy_dict.simps)
  then obtain st' where
    ret: "do_return 2 (eval_expr 1 []) (Some EObj) initial_state = Inr ((RETURN, 2), st')" ..
  from return_deep_copies [where ev = "eval_expr 1 []" and e = EObj and st = initial_state
      and x = 1 and ?st1.0 = one_object_state and n = 2, OF ev] ret
  have "val_t (vals (st_heap st') ! 2) = TOBJECT" and "val_v (vals (st_heap st') ! 2) = PObj 1"
    by (auto simp: one_object_state_def initial_heap_def empty_object_def numeral_2_eq_2)
  then have "vals (st_heap st') ! 2 = \<lparr>val_t = TOBJECT, val_v = PObj 1\<rparr>"
    by (cases "vals (st_heap st') ! 2") simp
  with ret have obj: "\<exists>st'. do_return 2 (eval_expr 1 []) (Some EObj) initial_state
        = Inr ((RETURN, 2), st')
      \<and> vals (st_heap st') ! 2 = \<lparr>val_t = TOBJECT, val_v = PObj 1\<rparr>"
    by blast
  have evc: "eval_expr 1 [] (ELambda [] []) initial_state = Inr (1, one_closure_state)"
    by (simp add: fuel_simps interp_defs one_closure_state_def)
  have "\<exists>st'. do_return 2 (eval_expr 1 []) (Some (ELambda [] [])) initial_state
          = Inr ((RETURN, 2), st')"
    supply eval_congs [cong]
    by (simp add: fuel_simps interp_defs deepcopy_dict.simps)
  then obtain st'' where
    retc: "do_return 2 (eval_expr 1 []) (Some (ELambda [] [])) initial_state
             = Inr ((RETURN, 2), st'')" ..
  from return_deep_copies [where ev = "eval_expr 1 []" and e = "ELambda [] []"
      and st = initial_state and x = 1 and ?st1.0 = one_closure_state and n = 2, OF evc] retc
  have "val_t (vals (st_heap st'') ! 2) = TCLOSURE" and "val_v (vals (st_heap st'') ! 2) = PClo 1"
    by (auto simp: one_closure_state_def initial_heap_def numeral_2_eq_2)
  then have "vals (st_heap st'') ! 2 = \<lparr>val_t = TCLOSURE, val_v = PClo 1\<rparr>"
    by (cases "vals (st_heap st'') ! 2") simp
  with retc have clo: "\<exists>st'. do_return 2 (eval_expr 1 []) (Some (ELambda [] [])) initial_state
        = Inr ((RETURN, 2), st')
      \<and> vals (st_heap st') ! 2 = \<lparr>val_t = TCLOSURE, val_v = PClo 1\<rparr>"
    by blast
  have evi: "eval_expr 1 [] (EInt 3) initial_state = Inr (1, one_int_state)"
    by (simp add: fuel_simps interp_defs one_int_state_def)
  have two: "(2::nat) = Suc 1"
    by simp
  from return_deep_copies [where ev = "eval_expr 1 []" and e = "EInt 3" and st = initial_state
      and x = 1 and ?st1.0 = one_int_state and n = 1, OF evi]
  have int: "returned_value (do_return 2 (eval_expr 1 []) (Some (EInt 3)) initial_state)
       = Inr \<lparr>val_t = TINT, val_v = PInt 3\<rparr>"
    unfolding two by (simp add: one_int_state_def initial_heap_def returned_value_def)
  from obj clo int show ?thesis by blast
qed

text \<open>
  The counterexample to C2 as stated: \<open>f\<close> returns its by-reference parameter, the object
  of \<open>a\<close>; what comes back is another object, and \<open>a == b\<close> is false.
\<close>

theorem returned_object_identity_counterexample:
  "returned_value (run_program 5 return_identity_program [])
     = Inr \<lparr>val_t = TBOOL, val_v = PBool False\<rparr>"
  supply eval_congs [cong]
  by (simp add: run_program_def return_identity_program_def fuel_simps interp_defs)


section \<open>Theorems: the depth of the scope chain\<close>

lemma keeps_depthI:
  "(\<And>r st'. m = Inr (r, st') \<Longrightarrow> length (environment st') = d) \<Longrightarrow> keeps_depth d m"
  by (simp add: keeps_depth_def)

lemma keeps_depthD: "keeps_depth d m \<Longrightarrow> m = Inr (r, st') \<Longrightarrow> length (environment st') = d"
  by (simp add: keeps_depth_def)

lemma keeps_Inl [simp]: "keeps_depth d (Inl e)"
  by (simp add: keeps_depth_def)

lemma keeps_Inr [simp]: "keeps_depth d (Inr (r, st)) = (length (environment st) = d)"
  by (auto simp: keeps_depth_def)

lemma keeps_bindE:
  assumes "keeps_depth d m"
    and "\<And>a st1. length (environment st1) = d \<Longrightarrow> keeps_depth d' (f a st1)"
  shows "keeps_depth d' (bindE m f)"
proof (cases m)
  case (Inl e)
  then show ?thesis by simp
next
  case (Inr p)
  obtain a st1 where p: "p = (a, st1)" by (cases p)
  with Inr assms(1) have "length (environment st1) = d" by (simp add: keeps_depth_def)
  with assms(2) Inr p show ?thesis by simp
qed

lemma ev_keepsD: "ev_keeps ev \<Longrightarrow> keeps_depth (length (environment st)) (ev e st)"
  by (simp add: ev_keeps_def)

lemma run_keepsD: "run_keeps rn \<Longrightarrow> keeps_depth (length (environment st)) (rn ss st)"
  by (simp add: run_keeps_def)

lemma alloc_value_keeps: "keeps_depth (length (environment st)) (alloc_value x st)"
  by (simp add: alloc_value_def new_value_def)

lemma eval_name_keeps: "keeps_depth (length (environment st)) (eval_name n ft name st)"
  by (auto simp: eval_name_def keeps_depth_def alloc_value_def new_value_def
      split: sum.splits option.splits if_splits payload.splits prod.splits)

lemma params_loop_keeps:
  assumes "ev_keeps ev"
  shows "keeps_depth (length (environment st)) (params_loop n ev zs temp_env st)"
proof (induction zs arbitrary: temp_env st)
  case Nil
  show ?case by simp
next
  case (Cons z zs)
  obtain fa ac where z: "z = (fa, ac)" by (cases z)
  show ?case
    unfolding z params_loop.simps
  proof (rule keeps_bindE [OF ev_keepsD [OF assms]])
    fix a and st1 :: state
    assume d: "length (environment st1) = length (environment st)"
    show "keeps_depth (length (environment st))
           (if is_refarg fa
            then params_loop n ev zs (dict_set temp_env (formal_name fa) a) st1
            else case deepcopy n a (st_heap st1) of Inl e \<Rightarrow> Inl e
                 | Inr (result, h) \<Rightarrow>
                     params_loop n ev zs (dict_set temp_env (formal_name fa) result)
                       (st1\<lparr>st_heap := h\<rparr>))"
      using Cons.IH [where st = st1] Cons.IH [where st = "st1\<lparr>st_heap := h\<rparr>" for h] d
      by (auto split: sum.splits)
  qed
qed

lemma prepare_params_keeps:
  "ev_keeps ev \<Longrightarrow>
   keeps_depth (length (environment st)) (prepare_params n ev formals actuals temp_env st)"
  by (simp add: prepare_params_def params_loop_keeps)

lemma print_loop_keeps:
  assumes "ev_keeps ev"
  shows "keeps_depth (length (environment st)) (print_loop ev args out st)"
proof (induction args arbitrary: out st)
  case Nil
  show ?case by simp
next
  case (Cons a args)
  show ?case
    unfolding print_loop.simps
  proof (rule keeps_bindE [OF ev_keepsD [OF assms]])
    fix r and st1 :: state
    assume d: "length (environment st1) = length (environment st)"
    show "keeps_depth (length (environment st))
           (case get_printable (vals (st_heap st1) ! r) of
              None \<Rightarrow> Inl (PY_EXCEPTION ''TypeError'')
            | Some s \<Rightarrow> print_loop ev args (out @ s) st1)"
      using Cons.IH [where st = st1] d by (auto split: option.splits)
  qed
qed

lemma call_print_keeps:
  "ev_keeps ev \<Longrightarrow> keeps_depth (length (environment st)) (call_print ev args st)"
  unfolding call_print_def
  by (rule keeps_bindE [OF print_loop_keeps]) simp_all

lemma read_input_keeps: "keeps_depth (length (environment st)) (read_input name st)"
  by (auto simp: read_input_def alloc_value_def new_value_def keeps_depth_def
      split: list.splits option.splits if_splits)

lemma call_input_keeps:
  assumes "ev_keeps ev"
  shows "keeps_depth (length (environment st)) (call_input ev name args st)"
proof -
  have "keeps_depth (length (environment st))
          (bindE (ev (hd args) st) (\<lambda>result st1. read_input name
             (st1\<lparr>st_output := st_output st1 @ [get_printable (vals (st_heap st1) ! result)]\<rparr>)))"
    by (rule keeps_bindE [OF ev_keepsD [OF assms]])
       (use read_input_keeps in \<open>auto simp: keeps_depth_def\<close>)
  then show ?thesis
    by (simp add: call_input_def read_input_keeps)
qed

lemma pop_scope_depth: "pop_scope st = Inr st' \<Longrightarrow> length (environment st) = Suc (length (environment st'))"
  by (auto simp: pop_scope_def env_pop_def split: if_splits)

lemma run_body_keeps:
  assumes "run_keeps rn"
  shows "keeps_depth (length (environment st)) (run_body rn ast new_env st)"
  unfolding run_body_def
proof (rule keeps_bindE [OF run_keepsD [OF assms]])
  fix r and st1 :: state
  assume "length (environment st1) = length (environment (push_scope (Some new_env) st))"
  then have "length (environment st1) = Suc (length (environment st))"
    by (simp add: push_scope_def env_push_def)
  then show "keeps_depth (length (environment st))
     (case pop_scope st1 of Inl e \<Rightarrow> Inl e | Inr st2 \<Rightarrow> Inr (snd r, st2))"
    by (auto split: sum.splits dest: pop_scope_depth)
qed

lemma call_func_with_keeps:
  assumes "ev_keeps ev" and "run_keeps rn"
  shows "keeps_depth (length (environment st)) (call_func_with n ev rn ft name args st)"
proof -
  have body: "keeps_depth (length (environment st))
      (bindE (prepare_params n ev formals args temp_env st) (\<lambda>new_env st1. run_body rn ast new_env st1))"
    for formals temp_env ast
    by (rule keeps_bindE [OF prepare_params_keeps [OF assms(1)]])
       (use run_body_keeps [OF assms(2)] in \<open>auto simp: keeps_depth_def\<close>)
  show ?thesis
    by (auto simp: call_func_with_def Let_def call_print_keeps call_input_keeps assms body
        split: sum.splits option.splits)
qed

lemma call_method_with_keeps:
  assumes "ev_keeps ev" and "run_keeps rn"
  shows "keeps_depth (length (environment st)) (call_method_with n ev rn objref name args st)"
proof -
  have body: "keeps_depth (length (environment st))
      (bindE (prepare_params n ev formals args temp_env st) (\<lambda>new_env st1. run_body rn ast new_env st1))"
    for formals temp_env ast
    by (rule keeps_bindE [OF prepare_params_keeps [OF assms(1)]])
       (use run_body_keeps [OF assms(2)] in \<open>auto simp: keeps_depth_def\<close>)
  show ?thesis
    by (auto simp: call_method_with_def body split: sum.splits option.splits payload.splits)
qed


lemma set_loop_length: "set_loop es s x = Some es' \<Longrightarrow> length es' = length es"
  by (induction es arbitrary: es') (auto split: if_splits)

lemma env_set_length: "env_set es s x b = Inr es' \<Longrightarrow> length es' = length es"
  by (auto simp: env_set_def set_innermost_def split: if_splits option.splits list.splits
      dest: set_loop_length)

lemma set_var_keeps: "set_var name x st = Inr st' \<Longrightarrow> length (environment st') = length (environment st)"
  by (auto simp: set_var_def split: sum.splits dest: env_set_length)

lemma assign_target_keeps:
  "assign_target name src st = Inr st' \<Longrightarrow> length (environment st') = length (environment st)"
  by (auto simp: assign_target_def Let_def new_object_def new_value_def
      split: sum.splits option.splits if_splits prod.splits payload.splits
      dest!: set_var_keeps)

lemma assign_with_keeps:
  assumes "ev_keeps ev" and "assign_with ev name e st = Inr st'"
  shows "length (environment st') = length (environment st)"
proof -
  from assms(2) obtain x st1 where ev: "ev e st = Inr (x, st1)"
    and tgt: "assign_target name (length (vals (st_heap st1)))
               (st1\<lparr>st_heap := (st_heap st1)\<lparr>vals := vals (st_heap st1) @ [vals (st_heap st1) ! x]\<rparr>\<rparr>) = Inr st'"
    by (cases "ev e st") (auto simp: assign_with_def copy_value_def new_value_def)
  from keeps_depthD [OF ev_keepsD [OF assms(1)] ev] assign_target_keeps [OF tgt]
  show ?thesis by simp
qed

lemma eval_op_keeps:
  assumes "ev_keeps ev"
  shows "keeps_depth (length (environment st)) (eval_op ev oper op1 op2 st)"
  unfolding eval_op_def
proof (rule keeps_bindE [OF ev_keepsD [OF assms]])
  fix l and st1 :: state
  assume d: "length (environment st1) = length (environment st)"
  show "keeps_depth (length (environment st))
     (bindE (ev op2 st1) (\<lambda>right_value_obj st2.
        case eval_op_values oper (vals (st_heap st2) ! l) (vals (st_heap st2) ! right_value_obj) of
          Inl e \<Rightarrow> Inl e | Inr x \<Rightarrow> alloc_value x st2))"
  proof (rule keeps_bindE [OF ev_keepsD [OF assms]])
    fix r and st2 :: state
    assume "length (environment st2) = length (environment st1)"
    with d alloc_value_keeps [of st2] show "keeps_depth (length (environment st))
      (case eval_op_values oper (vals (st_heap st2) ! l) (vals (st_heap st2) ! r) of
         Inl e \<Rightarrow> Inl e | Inr x \<Rightarrow> alloc_value x st2)"
      by (auto split: sum.splits)
  qed
qed

lemma eval_unary_keeps:
  assumes "ev_keeps ev"
  shows "keeps_depth (length (environment st)) (eval_unary ev is_not op1 ty f st)"
  unfolding eval_unary_def
proof (rule keeps_bindE [OF ev_keepsD [OF assms]])
  fix x and st1 :: state
  assume d: "length (environment st1) = length (environment st)"
  with alloc_value_keeps [of st1]
  show "keeps_depth (length (environment st))
     (let value_obj = unary_op_promotion is_not (vals (st_heap st1) ! x)
      in if val_t value_obj \<noteq> ty then Inl TYPE_ERROR
         else case f (val_v value_obj) of Inl e \<Rightarrow> Inl e
              | Inr p \<Rightarrow> alloc_value \<lparr>val_t = ty, val_v = p\<rparr> st1)"
    by (auto simp: Let_def split: sum.splits)
qed

lemma eval_lambda_keeps: "keeps_depth (length (environment st)) (eval_lambda n args ss st)"
  by (auto simp: eval_lambda_def alloc_value_def new_value_def keeps_depth_def
      split: sum.splits prod.splits)

lemma eval_obj_keeps: "keeps_depth (length (environment st)) (eval_obj st)"
  by (auto simp: eval_obj_def alloc_value_def new_value_def new_object_def keeps_depth_def
      split: sum.splits prod.splits)

lemma eval_expr_step_keeps:
  assumes "ev_keeps ev" and "run_keeps rn"
  shows "ev_keeps (eval_expr_step n ev rn ft)"
  unfolding ev_keeps_def
proof (intro allI)
  fix e st
  show "keeps_depth (length (environment st)) (eval_expr_step n ev rn ft e st)"
    by (cases e)
       (simp_all add: eval_expr_step_def alloc_value_keeps eval_name_keeps eval_lambda_keeps
          eval_obj_keeps call_func_with_keeps [OF assms] call_method_with_keeps [OF assms]
          eval_op_keeps [OF assms(1)] eval_unary_keeps [OF assms(1)])
qed

lemma do_return_keeps:
  assumes "ev_keeps ev"
  shows "keeps_depth (length (environment st)) (do_return n ev expr_ast st)"
proof (cases expr_ast)
  case None
  then show ?thesis by (simp add: do_return_def)
next
  case (Some e)
  show ?thesis
    unfolding Some do_return_def option.case
    by (rule keeps_bindE [OF ev_keepsD [OF assms]]) (auto split: sum.splits)
qed

lemma do_if_keeps:
  assumes "ev_keeps ev" and "run_keeps rn"
  shows "keeps_depth (length (environment st)) (do_if ev rn c ss els st)"
  unfolding do_if_def
proof (rule keeps_bindE [OF ev_keepsD [OF assms(1)]])
  fix x and st1 :: state
  assume d: "length (environment st1) = length (environment st)"
  with run_keepsD [OF assms(2), where st = st1]
  show "keeps_depth (length (environment st))
     (case condition (vals (st_heap st1) ! x) of Inl e \<Rightarrow> Inl e
      | Inr True \<Rightarrow> rn ss st1
      | Inr False \<Rightarrow> (case els of None \<Rightarrow> Inr ((CONTINUE, NIL_VALUE), st1) | Some ss \<Rightarrow> rn ss st1))"
    by (auto split: sum.splits bool.splits option.splits)
qed

lemma do_while_keeps:
  assumes "ev_keeps ev" and "run_keeps rn"
  shows "keeps_depth (length (environment st)) (do_while k ev rn c ss st)"
proof (induction k arbitrary: st)
  case 0
  show ?case by simp
next
  case (Suc k)
  show ?case
    unfolding do_while.simps
  proof (rule keeps_bindE [OF ev_keepsD [OF assms(1)]])
    fix x and st1 :: state
    assume d: "length (environment st1) = length (environment st)"
    have inner: "keeps_depth (length (environment st))
       (bindE (rn ss st1) (\<lambda>r st2.
          if fst r = RETURN then Inr (r, st2)
          else if run_while_value (vals (st_heap st1) ! x) x st2
          then do_while k ev rn c ss st2
          else Inr ((CONTINUE, NIL_VALUE), st2)))"
    proof (rule keeps_bindE [OF run_keepsD [OF assms(2)]])
      fix r and st2 :: state
      assume "length (environment st2) = length (environment st1)"
      with d Suc.IH [where st = st2]
      show "keeps_depth (length (environment st))
             (if fst r = RETURN then Inr (r, st2)
              else if run_while_value (vals (st_heap st1) ! x) x st2
              then do_while k ev rn c ss st2
              else Inr ((CONTINUE, NIL_VALUE), st2))"
        by auto
    qed
    show "keeps_depth (length (environment st))
       (case condition (vals (st_heap st1) ! x) of Inl e \<Rightarrow> Inl e
        | Inr True \<Rightarrow> bindE (rn ss st1) (\<lambda>r st2.
            if fst r = RETURN then Inr (r, st2)
            else if run_while_value (vals (st_heap st1) ! x) x st2
            then do_while k ev rn c ss st2
            else Inr ((CONTINUE, NIL_VALUE), st2))
        | Inr False \<Rightarrow> Inr ((CONTINUE, NIL_VALUE), st1))"
      using inner d by (auto split: sum.splits bool.splits)
  qed
qed

lemma run_statement_keeps:
  assumes "ev_keeps ev" and "run_keeps rn"
  shows "keeps_depth (length (environment st)) (run_statement n ev rn ft s st)"
proof (cases s)
  case (SFcall name args)
  show ?thesis
    unfolding SFcall run_statement_def stmt.case
    by (rule keeps_bindE [OF call_func_with_keeps [OF assms]]) simp
next
  case (SAssign name e)
  show ?thesis
    using assign_with_keeps [OF assms(1)]
    by (auto simp: SAssign run_statement_def split: sum.splits)
next
  case (SMcall objref name args)
  show ?thesis
    unfolding SMcall run_statement_def stmt.case
    by (rule keeps_bindE [OF call_method_with_keeps [OF assms]]) simp
next
  case (SReturn e)
  then show ?thesis by (simp add: run_statement_def do_return_keeps [OF assms(1)])
next
  case (SIf c ss els)
  then show ?thesis by (simp add: run_statement_def do_if_keeps [OF assms])
next
  case (SWhile c ss)
  then show ?thesis by (simp add: run_statement_def do_while_keeps [OF assms])
qed

text \<open>Each exit of the statement loop pops one scope.\<close>

lemma statements_loop_pops:
  assumes "ev_keeps ev" and "run_keeps rn"
  shows "statements_loop n ev rn ft ss st = Inr (r, st') \<Longrightarrow>
         length (environment st) = Suc (length (environment st'))"
proof (induction ss arbitrary: st)
  case Nil
  then show ?case by (auto split: sum.splits dest: pop_scope_depth)
next
  case (Cons s ss)
  from Cons.prems obtain r1 st1 where
    s1: "run_statement n ev rn ft s st = Inr (r1, st1)"
    and rest: "(if fst r1 = RETURN
                then case pop_scope st1 of Inl e \<Rightarrow> Inl e | Inr st2 \<Rightarrow> Inr (r1, st2)
                else statements_loop n ev rn ft ss st1) = Inr (r, st')"
    by (cases "run_statement n ev rn ft s st") auto
  have d: "length (environment st1) = length (environment st)"
    by (rule keeps_depthD [OF run_statement_keeps [OF assms] s1])
  show ?case
  proof (cases "fst r1 = RETURN")
    case True
    with rest d show ?thesis by (auto split: sum.splits dest: pop_scope_depth)
  next
    case False
    with rest have "statements_loop n ev rn ft ss st1 = Inr (r, st')" by simp
    from Cons.IH [OF this] d show ?thesis by simp
  qed
qed

lemma run_statements_step_keeps:
  assumes "ev_keeps ev" and "run_keeps rn"
  shows "run_keeps (run_statements_step n ev rn ft)"
  unfolding run_keeps_def keeps_depth_def
  by (auto simp: run_statements_step_def push_scope_def env_push_def
      dest!: statements_loop_pops [OF assms])

lemma interp_keeps: "ev_keeps (eval_expr n ft) \<and> run_keeps (run_statements n ft)"
proof (induction n)
  case 0
  show ?case
    by (simp add: ev_keeps_def run_keeps_def eval_expr_def run_statements_def)
next
  case (Suc n)
  then have ev: "ev_keeps (eval_expr n ft)" and rn: "run_keeps (run_statements n ft)"
    by simp_all
  have "eval_expr (Suc n) ft = eval_expr_step n (eval_expr n ft) (run_statements n ft) ft"
    by (simp add: eval_expr_def run_statements_def)
  moreover have "run_statements (Suc n) ft
      = run_statements_step n (eval_expr n ft) (run_statements n ft) ft"
    by (simp add: eval_expr_def run_statements_def)
  ultimately show ?case
    using eval_expr_step_keeps [OF ev rn] run_statements_step_keeps [OF ev rn] by simp
qed

text \<open>
  C8. A statement list that runs to an end without an error leaves the scope chain as deep
  as it found it: \<open>__run_statements\<close> pushes one scope and enters its loop, and every exit
  of the loop that is not an error, the end of the list or a \<open>return\<close> at any depth below,
  pops one scope. This holds for every statement list, whatever it is the body of.
\<close>

theorem run_statements_balanced:
  "(run_statements n ft statements st = Inr (r, st') \<longrightarrow>
      length (environment st') = length (environment st))
   \<and> run_statements (Suc n) ft statements st
       = statements_loop n (eval_expr n ft) (run_statements n ft) ft statements
           (st\<lparr>environment := environment st @ [[]]\<rparr>)
   \<and> (statements_loop n (eval_expr n ft) (run_statements n ft) ft statements st
         = Inr (r, st') \<longrightarrow>
      length (environment st) = Suc (length (environment st')))"
proof (intro conjI impI)
  assume run: "run_statements n ft statements st = Inr (r, st')"
  from interp_keeps [of n ft] have "run_keeps (run_statements n ft)" by simp
  from keeps_depthD [OF run_keepsD [OF this] run] show "length (environment st') = length (environment st)" .
next
  show "run_statements (Suc n) ft statements st
       = statements_loop n (eval_expr n ft) (run_statements n ft) ft statements
           (st\<lparr>environment := environment st @ [[]]\<rparr>)"
    by (simp add: run_statements_Suc run_statements_step_def push_scope_def env_push_def)
next
  assume "statements_loop n (eval_expr n ft) (run_statements n ft) ft statements st
            = Inr (r, st')"
  with interp_keeps [of n ft] show "length (environment st) = Suc (length (environment st'))"
    by (auto dest: statements_loop_pops)
qed

text \<open>The witness of C8: the early return leaves the one scope the run started with.\<close>

theorem run_statements_balanced_witness:
  "\<exists>r st'. run_statements 5 [] early_return_statements initial_state = Inr ((RETURN, r), st')
      \<and> length (environment st') = length (environment initial_state)
      \<and> length (environment initial_state @ [[]]) = Suc (length (environment st'))"
proof -
  have "\<exists>r st'. run_statements 5 [] early_return_statements initial_state = Inr ((RETURN, r), st')"
    supply eval_congs [cong]
    by (simp add: early_return_statements_def fuel_simps interp_defs)
  then obtain r st' where
    ret: "run_statements 5 [] early_return_statements initial_state = Inr ((RETURN, r), st')"
    by blast
  have five: "(5::nat) = Suc 4"
    by simp
  from run_statements_balanced [of 5 "[]" early_return_statements initial_state "(RETURN, r)" st']
    ret
  have same: "length (environment st') = length (environment initial_state)"
    by blast
  from run_statements_balanced [of 4 "[]" early_return_statements initial_state] ret
  have loop: "statements_loop 4 (eval_expr 4 []) (run_statements 4 []) [] early_return_statements
          (initial_state\<lparr>environment := environment initial_state @ [[]]\<rparr>)
        = Inr ((RETURN, r), st')"
    unfolding five by simp
  from run_statements_balanced [of 4 "[]" early_return_statements
      "initial_state\<lparr>environment := environment initial_state @ [[]]\<rparr>" "(RETURN, r)" st'] loop
  have "length (environment initial_state @ [[]]) = Suc (length (environment st'))"
    by simp
  with ret same show ?thesis by blast
qed

section \<open>Theorems: method calls\<close>

lemma method_loop_found:
  "0 < n \<Longrightarrow> method_loop n h name (Some x) cp = Inr (Some x)"
  by (cases n) (auto split: option.splits)

lemma method_loop_resolves:
  "is_chain h cp os \<Longrightarrow> length os < n \<Longrightarrow>
   method_loop n h name None cp = Inr (resolve_chain h name os)"
proof (induction n arbitrary: cp os)
  case 0
  then show ?case by simp
next
  case (Suc n)
  show ?case
  proof (cases cp)
    case None
    with Suc.prems show ?thesis by simp
  next
    case (Some x)
    with Suc.prems obtain a os' where os: "os = a # os'"
      and pay: "val_v (vals h ! x) = PObj a"
      and chain: "is_chain h (obj_proto (objs h ! a)) os'"
      by (cases os) auto
    from Suc.prems os have len: "length os' < n" by simp
    show ?thesis
    proof (cases "dict_get (obj_values (objs h ! a)) name")
      case None
      with Suc.IH [OF chain len] Some pay os show ?thesis by simp
    next
      case (Some y)
      from len have "0 < n" by simp
      with Some \<open>cp = Some x\<close> pay os show ?thesis by (simp add: method_loop_found)
    qed
  qed
qed

text \<open>
  On the two objects that are each other's prototype the loop does not stop, whatever the
  budget, when the name is in neither.
\<close>

lemma method_loop_cycle_runs_on:
  "x \<in> {1, 2, 3, 4} \<Longrightarrow> method_loop n cyclic_heap name None (Some x) = Inl OUT_OF_FUEL"
proof (induction n arbitrary: x)
  case 0
  show ?case by simp
next
  case (Suc n)
  from Suc.prems Suc.IH [of 3] Suc.IH [of 4] show ?case
    by (auto simp: cyclic_heap_def dict_get_def)
qed

lemma captured_keeps_other:
  "k \<notin> fst ` set captured \<Longrightarrow>
   dict_get (fold (\<lambda>(var_name, x) env. dict_set env var_name x) captured d) k = dict_get d k"
  by (induction captured arbitrary: d) (auto simp: dict_get_dict_set)

lemma params_loop_keeps_other:
  "k \<notin> formal_name ` fst ` set zs \<Longrightarrow> params_loop n ev zs d st = Inr (d', st') \<Longrightarrow>
   dict_get d' k = dict_get d k"
proof (induction zs arbitrary: d st)
  case Nil
  then show ?case by simp
next
  case (Cons z zs)
  obtain fa ac where z: "z = (fa, ac)" by (cases z)
  from Cons.prems(1) have k: "k \<noteq> formal_name fa" and rest: "k \<notin> formal_name ` fst ` set zs"
    by (auto simp: z)
  from Cons.prems(2) obtain x st1 where ev: "ev ac st = Inr (x, st1)"
    by (cases "ev ac st") (auto simp: z)
  from Cons.prems(2) ev obtain y st2 where
    "params_loop n ev zs (dict_set d (formal_name fa) y) st2 = Inr (d', st')"
    by (auto simp: z split: if_splits sum.splits)
  from Cons.IH [OF rest this] k show ?case by (simp add: dict_get_dict_set)
qed

text \<open>
  C7, as the code has it. For a method call \<open>obj.m(...)\<close> whose receiver is bound to an
  object and whose chain of \<open>proto\<close> links ends: the loop finds what the specification's
  resolution finds, the receiver's own field first and then the prototypes outward. No
  field of that name is a name error, a field that is not a closure a type error.
  Otherwise the parameters are bound on top of a dictionary that starts with \<open>this\<close> bound
  to the receiver and then takes the closure's captured variables, and the body runs with
  it; \<open>this\<close> is the receiver there unless the closure captured a variable \<open>this\<close> or has a
  parameter of that name, which then replaces it.
\<close>

theorem method_call_resolution:
  assumes "env_get (environment st) objref = Some obj"
    and "val_t (vals (st_heap st) ! obj) = TOBJECT"
    and "is_chain (st_heap st) (Some obj) os"
    and "length os < n"
  shows "(resolve_chain (st_heap st) name os = None \<longrightarrow>
            call_method_with n ev rn objref name args st = Inl NAME_ERROR)
         \<and> (\<forall>tc. resolve_chain (st_heap st) name os = Some tc
                \<and> val_t (vals (st_heap st) ! tc) \<noteq> TCLOSURE \<longrightarrow>
              call_method_with n ev rn objref name args st = Inl TYPE_ERROR)
         \<and> (\<forall>tc c. resolve_chain (st_heap st) name os = Some tc
                \<and> vals (st_heap st) ! tc = \<lparr>val_t = TCLOSURE, val_v = PClo c\<rparr> \<longrightarrow>
              call_method_with n ev rn objref name args st
                = bindE (prepare_params n ev (ast_args (clo_func_ast (clos (st_heap st) ! c))) args
                          (prepare_env_with_closed_variables (clos (st_heap st) ! c)
                             [(''this'', obj)]) st)
                    (run_body rn (clo_func_ast (clos (st_heap st) ! c)))
              \<and> (''this'' \<notin> fst ` set (clo_captured_env (clos (st_heap st) ! c))
                  \<and> ''this'' \<notin> formal_name ` set (ast_args (clo_func_ast (clos (st_heap st) ! c)))
                  \<longrightarrow>
                  (\<forall>new_env st1.
                     prepare_params n ev (ast_args (clo_func_ast (clos (st_heap st) ! c))) args
                       (prepare_env_with_closed_variables (clos (st_heap st) ! c)
                          [(''this'', obj)]) st = Inr (new_env, st1)
                     \<longrightarrow> dict_get new_env ''this'' = Some obj)))"
proof -
  have loop: "method_loop n (st_heap st) name None (Some obj)
                = Inr (resolve_chain (st_heap st) name os)"
    by (rule method_loop_resolves [OF assms(3,4)])
  have frame: "dict_get new_env ''this'' = Some obj"
    if "''this'' \<notin> fst ` set (clo_captured_env clo)"
      and "''this'' \<notin> formal_name ` set formals"
      and "prepare_params n ev formals args
             (prepare_env_with_closed_variables clo [(''this'', obj)]) st = Inr (new_env, st1)"
    for clo formals new_env st1
  proof -
    from that(3) have pl: "params_loop n ev (zip formals args)
             (prepare_env_with_closed_variables clo [(''this'', obj)]) st = Inr (new_env, st1)"
      by (auto simp: prepare_params_def split: if_splits)
    have "''this'' \<notin> formal_name ` fst ` set (zip formals args)"
      using that(2) by (auto dest: set_zip_leftD)
    from params_loop_keeps_other [OF this pl]
    have "dict_get new_env ''this''
            = dict_get (prepare_env_with_closed_variables clo [(''this'', obj)]) ''this''" .
    also have "\<dots> = dict_get [(''this'', obj)] ''this''"
      by (simp add: prepare_env_with_closed_variables_def captured_keeps_other [OF that(1)])
    also have "\<dots> = Some obj"
      by (simp add: dict_get_def)
    finally show ?thesis .
  qed
  show ?thesis
    using assms(1,2) frame
    by (auto simp: call_method_with_def loop)
qed


text \<open>
  The witness of C7 as amended: \<open>d.m()\<close> finds \<open>m\<close> in the prototype, and \<open>this.x = 1\<close> in
  its body stores \<open>x\<close> in the receiver, object 0, not in the prototype; \<open>d.v()\<close> is a type
  error and \<open>d.w()\<close> a name error.
\<close>

theorem method_call_resolution_witness:
  "(\<exists>r st'. call_method 3 [] ''d'' ''m'' [] shared_method_state = Inr (r, st')
      \<and> map fst (obj_values (objs (st_heap st') ! 0)) = [''x'']
      \<and> map fst (obj_values (objs (st_heap st') ! 1)) = [''m'', ''v''])
   \<and> (\<exists>new_env st1.
         prepare_params 3 (eval_expr 3 [])
           (ast_args (clo_func_ast (clos (st_heap shared_method_state) ! 0))) []
           (prepare_env_with_closed_variables (clos (st_heap shared_method_state) ! 0)
              [(''this'', 1)])
           shared_method_state = Inr (new_env, st1)
         \<and> dict_get new_env ''this'' = Some 1)
   \<and> call_method 3 [] ''d'' ''v'' [] shared_method_state = Inl TYPE_ERROR
   \<and> call_method 3 [] ''d'' ''w'' [] shared_method_state = Inl NAME_ERROR"
proof -
  have env: "env_get (environment shared_method_state) ''d'' = Some 1"
    by (simp add: shared_method_state_def env_get_def dict_has_def dict_get_def)
  have ty: "val_t (vals (st_heap shared_method_state) ! 1) = TOBJECT"
    by (simp add: shared_method_state_def)
  have chain: "is_chain (st_heap shared_method_state) (Some 1) [0, 1]"
    by (simp add: shared_method_state_def)
  have len: "length [0::nat, 1] < 3"
    by simp
  note resolution = method_call_resolution [OF env ty chain len, where ev = "eval_expr 3 []"
      and rn = "run_statements 3 []" and args = "[]"]
  have res_m: "resolve_chain (st_heap shared_method_state) ''m'' [0, 1] = Some 3"
    by (simp add: shared_method_state_def dict_get_def)
  have res_v: "resolve_chain (st_heap shared_method_state) ''v'' [0, 1] = Some 4"
    by (simp add: shared_method_state_def dict_get_def)
  have res_w: "resolve_chain (st_heap shared_method_state) ''w'' [0, 1] = None"
    by (simp add: shared_method_state_def dict_get_def)
  have clo: "vals (st_heap shared_method_state) ! 3 = \<lparr>val_t = TCLOSURE, val_v = PClo 0\<rparr>"
    by (simp add: shared_method_state_def)
  have int: "val_t (vals (st_heap shared_method_state) ! 4) \<noteq> TCLOSURE"
    by (simp add: shared_method_state_def)
  have no_this: "''this'' \<notin> fst ` set (clo_captured_env (clos (st_heap shared_method_state) ! 0))
      \<and> ''this'' \<notin> formal_name ` set (ast_args (clo_func_ast
            (clos (st_heap shared_method_state) ! 0)))"
    by (simp add: shared_method_state_def)
  from resolution [of "''m''"] res_m clo
  have eq: "call_method_with 3 (eval_expr 3 []) (run_statements 3 []) ''d'' ''m'' []
              shared_method_state
            = bindE (prepare_params 3 (eval_expr 3 [])
                       (ast_args (clo_func_ast (clos (st_heap shared_method_state) ! 0))) []
                       (prepare_env_with_closed_variables
                          (clos (st_heap shared_method_state) ! 0) [(''this'', 1)])
                       shared_method_state)
                (run_body (run_statements 3 [])
                   (clo_func_ast (clos (st_heap shared_method_state) ! 0)))"
    by simp
  have call: "\<exists>r st'. call_method 3 [] ''d'' ''m'' [] shared_method_state = Inr (r, st')
      \<and> map fst (obj_values (objs (st_heap st') ! 0)) = [''x'']
      \<and> map fst (obj_values (objs (st_heap st') ! 1)) = [''m'', ''v'']"
    unfolding call_method_def eq
    supply eval_congs [cong]
    by (simp add: shared_method_state_def fuel_simps interp_defs split_on.simps)
  have "\<exists>new_env st1.
         prepare_params 3 (eval_expr 3 [])
           (ast_args (clo_func_ast (clos (st_heap shared_method_state) ! 0))) []
           (prepare_env_with_closed_variables (clos (st_heap shared_method_state) ! 0)
              [(''this'', 1)])
           shared_method_state = Inr (new_env, st1)"
    by (simp add: shared_method_state_def prepare_params_def)
  with resolution [of "''m''"] res_m clo no_this
  have frame: "\<exists>new_env st1.
         prepare_params 3 (eval_expr 3 [])
           (ast_args (clo_func_ast (clos (st_heap shared_method_state) ! 0))) []
           (prepare_env_with_closed_variables (clos (st_heap shared_method_state) ! 0)
              [(''this'', 1)])
           shared_method_state = Inr (new_env, st1)
         \<and> dict_get new_env ''this'' = Some 1"
    by blast
  from resolution [of "''v''"] res_v int
  have v: "call_method 3 [] ''d'' ''v'' [] shared_method_state = Inl TYPE_ERROR"
    by (simp add: call_method_def)
  from resolution [of "''w''"] res_w
  have w: "call_method 3 [] ''d'' ''w'' [] shared_method_state = Inl NAME_ERROR"
    by (simp add: call_method_def)
  from call frame v w show ?thesis by blast
qed

text \<open>
  The counterexample to C7 as stated: the closure stored in \<open>a.f\<close> was made inside a method
  of \<open>a\<close> and captured \<open>this\<close>. Called as \<open>b.f()\<close> it runs with \<open>this\<close> being \<open>a\<close>, not the
  receiver \<open>b\<close>: the field \<open>tag\<close> it sets is found in \<open>a\<close>.
\<close>

theorem this_capture_counterexample:
  "returned_value (run_program 6 this_capture_program [])
     = Inr \<lparr>val_t = TINT, val_v = PInt 7\<rparr>"
  supply eval_congs [cong]
  by (simp add: run_program_def this_capture_program_def fuel_simps interp_defs split_on.simps)


section \<open>Theorems: scopes of a call\<close>

text \<open>Scopes that do not bind a name are passed over by the lookup.\<close>

lemma get_loop_skip_unbound:
  "\<forall>e\<in>set inner. dict_get e x = None \<Longrightarrow> get_loop (inner @ rest) x = get_loop rest x"
  by (induction inner) (simp_all add: dict_has_def)

lemma env_get_skip_scopes:
  "dict_get e x = None \<Longrightarrow> \<forall>i\<in>set inner. dict_get i x = None \<Longrightarrow>
   env_get (es @ e # inner) x = env_get es x"
  using get_loop_skip_unbound [of "rev inner @ [e]" x "rev es"] by (simp add: env_get_def)

lemma prepare_params_keeps_other:
  assumes "prepare_params n ev formals actuals
             (prepare_env_with_closed_variables clo base) st = Inr (new_env, st1)"
    and "k \<notin> fst ` set (clo_captured_env clo)" and "k \<notin> formal_name ` set formals"
  shows "dict_get new_env k = dict_get base k"
proof -
  from assms(1) have len: "length actuals = length formals"
    and loop: "params_loop n ev (zip formals actuals)
                 (prepare_env_with_closed_variables clo base) st = Inr (new_env, st1)"
    by (auto simp: prepare_params_def split: if_splits)
  from assms(3) have "k \<notin> formal_name ` fst ` set (zip formals actuals)"
    by (auto dest: set_zip_leftD)
  from params_loop_keeps_other [OF this loop] captured_keeps_other [OF assms(2)]
  show ?thesis by (simp add: prepare_env_with_closed_variables_def)
qed

lemma run_body_statements:
  "run_body (run_statements (Suc n) ft) ast new_env st =
     bindE (statements_loop n (eval_expr n ft) (run_statements n ft) ft (ast_statements ast)
              (st\<lparr>environment := environment st @ [new_env, []]\<rparr>))
       (\<lambda>r st2. case pop_scope st2 of Inl e \<Rightarrow> Inl e | Inr st3 \<Rightarrow> Inr (snd r, st3))"
  by (simp add: run_body_def run_statements_Suc run_statements_step_def push_scope_def
      env_push_def)

lemma eval_var_in_callee:
  assumes "CHR ''.'' \<notin> set x" and "dict_get new_env x = None"
    and "\<forall>i\<in>set inner. dict_get i x = None"
    and "environment s = es @ new_env # inner" and "env_get es x = Some a"
  shows "eval_expr (Suc j) ft (EVar x) s = Inr (a, s)"
  using assms env_get_skip_scopes [of new_env x inner es]
  by (simp add: eval_expr_Suc eval_expr_step_def eval_name_def)

lemma run_body_return_var:
  assumes "CHR ''.'' \<notin> set x" and "ast_statements ast = [SReturn (Some (EVar x))]"
    and "dict_get new_env x = None" and "env_get (environment st) x = Some a"
    and "atomic (val_v (vals (st_heap st) ! a))"
  shows "run_body (run_statements (Suc (Suc n)) ft) ast new_env st
           = Inr (length (vals (st_heap st)),
                  st\<lparr>st_heap := (st_heap st)\<lparr>vals := vals (st_heap st)
                     @ [vals (st_heap st) ! a]\<rparr>\<rparr>)"
proof -
  let ?s = "st\<lparr>environment := environment st @ [new_env, []]\<rparr>"
  have "eval_expr (Suc n) ft (EVar x) ?s = Inr (a, ?s)"
    using assms by (intro eval_var_in_callee [where inner = "[[]]" and es = "environment st"
          and new_env = new_env]) (simp_all add: dict_get_def)
  with assms(2,5) show ?thesis
    by (simp add: run_body_statements run_statement_def do_return_def deepcopy_atomic
        pop_scope_def env_pop_def butlast_append)
qed


text \<open>
  C1, as the code has it. For a call of a function or of a lambda held in a variable
  (\<open>base\<close> empty) and for a method call (\<open>base\<close> holding \<open>this\<close>), with any parameters
  and captured variables, once the closure is resolved and the arguments are evaluated:
  the body's statements run in the scopes of the caller, which stay in the chain, followed
  by the new dictionary and one empty scope; the new dictionary binds, beyond \<open>base\<close>,
  only captured variables and parameters; in these scopes a bare name that neither the new
  dictionary nor a scope opened since binds is resolved from the caller's scopes (dynamic
  scoping). In particular, if the body is \<open>return x;\<close> for such a name \<open>x\<close> that the
  caller binds to a primitive value, the call returns a new \<open>Value\<close> equal to the
  caller's and leaves the scopes as they were.
\<close>

theorem callee_sees_caller_variable:
  fixes st st1 :: state
  assumes clo: "clo = clos (st_heap st) ! c"
    and call: "(base = [] \<and> f \<noteq> ''print'' \<and> f \<noteq> ''inputi'' \<and> f \<noteq> ''inputs''
                \<and> get_func_by_name ft f (Some (length actual_args)) st = Inr (Some c)
                \<and> clo_type clo = TCLOSURE
                \<and> result = call_func (Suc (Suc n)) ft f actual_args st)
             \<or> (base = [(''this'', obj)] \<and> env_get (environment st) objref = Some obj
                \<and> val_t (vals (st_heap st) ! obj) = TOBJECT
                \<and> method_loop (Suc (Suc n)) (st_heap st) m None (Some obj) = Inr (Some tc)
                \<and> vals (st_heap st) ! tc = \<lparr>val_t = TCLOSURE, val_v = PClo c\<rparr>
                \<and> result = call_method (Suc (Suc n)) ft objref m actual_args st)"
    and args: "prepare_params (Suc (Suc n)) (eval_expr (Suc (Suc n)) ft)
                 (ast_args (clo_func_ast clo)) actual_args
                 (prepare_env_with_closed_variables clo base) st = Inr (new_env, st1)"
  shows "(result =
           bindE (statements_loop (Suc n) (eval_expr (Suc n) ft) (run_statements (Suc n) ft) ft
                    (ast_statements (clo_func_ast clo))
                    (st1\<lparr>environment := environment st1 @ [new_env, []]\<rparr>))
             (\<lambda>r st2. case pop_scope st2 of Inl e \<Rightarrow> Inl e | Inr st3 \<Rightarrow> Inr (snd r, st3)))
       \<and> (\<forall>k. k \<notin> fst ` set (clo_captured_env clo)
             \<and> k \<notin> formal_name ` set (ast_args (clo_func_ast clo))
           \<longrightarrow> dict_get new_env k = dict_get base k)
       \<and> (\<forall>x a inner s j. CHR ''.'' \<notin> set x \<and> dict_get new_env x = None
             \<and> (\<forall>i\<in>set inner. dict_get i x = None)
             \<and> environment s = environment st1 @ new_env # inner
             \<and> env_get (environment st1) x = Some a
           \<longrightarrow> eval_expr (Suc j) ft (EVar x) s = Inr (a, s))
       \<and> (\<forall>x a. ast_statements (clo_func_ast clo) = [SReturn (Some (EVar x))]
             \<and> CHR ''.'' \<notin> set x \<and> dict_get base x = None
             \<and> x \<notin> fst ` set (clo_captured_env clo)
             \<and> x \<notin> formal_name ` set (ast_args (clo_func_ast clo))
             \<and> env_get (environment st1) x = Some a
             \<and> atomic (val_v (vals (st_heap st1) ! a))
           \<longrightarrow> result = Inr (length (vals (st_heap st1)),
                    st1\<lparr>st_heap := (st_heap st1)\<lparr>vals := vals (st_heap st1)
                       @ [vals (st_heap st1) ! a]\<rparr>\<rparr>))"
proof -
  have body: "result = run_body (run_statements (Suc (Suc n)) ft) (clo_func_ast clo) new_env st1"
    using call
  proof
    assume "base = [] \<and> f \<noteq> ''print'' \<and> f \<noteq> ''inputi'' \<and> f \<noteq> ''inputs''
                \<and> get_func_by_name ft f (Some (length actual_args)) st = Inr (Some c)
                \<and> clo_type clo = TCLOSURE
                \<and> result = call_func (Suc (Suc n)) ft f actual_args st"
    with args clo show ?thesis
      by (simp add: call_func_def call_func_with_def)
  next
    assume "base = [(''this'', obj)] \<and> env_get (environment st) objref = Some obj
                \<and> val_t (vals (st_heap st) ! obj) = TOBJECT
                \<and> method_loop (Suc (Suc n)) (st_heap st) m None (Some obj) = Inr (Some tc)
                \<and> vals (st_heap st) ! tc = \<lparr>val_t = TCLOSURE, val_v = PClo c\<rparr>
                \<and> result = call_method (Suc (Suc n)) ft objref m actual_args st"
    with args clo show ?thesis
      by (simp add: call_method_def call_method_with_def del: method_loop.simps)
  qed
  have scopes: "result =
           bindE (statements_loop (Suc n) (eval_expr (Suc n) ft) (run_statements (Suc n) ft) ft
                    (ast_statements (clo_func_ast clo))
                    (st1\<lparr>environment := environment st1 @ [new_env, []]\<rparr>))
             (\<lambda>r st2. case pop_scope st2 of Inl e \<Rightarrow> Inl e | Inr st3 \<Rightarrow> Inr (snd r, st3))"
    unfolding body by (rule run_body_statements)
  have frame: "\<forall>k. k \<notin> fst ` set (clo_captured_env clo)
             \<and> k \<notin> formal_name ` set (ast_args (clo_func_ast clo))
           \<longrightarrow> dict_get new_env k = dict_get base k"
    using prepare_params_keeps_other [OF args] by blast
  have lookup: "\<forall>x a inner s j. CHR ''.'' \<notin> set x \<and> dict_get new_env x = None
             \<and> (\<forall>i\<in>set inner. dict_get i x = None)
             \<and> environment s = environment st1 @ new_env # inner
             \<and> env_get (environment st1) x = Some a
           \<longrightarrow> eval_expr (Suc j) ft (EVar x) s = Inr (a, s)"
    using eval_var_in_callee by blast
  have probe: "\<forall>x a. ast_statements (clo_func_ast clo) = [SReturn (Some (EVar x))]
             \<and> CHR ''.'' \<notin> set x \<and> dict_get base x = None
             \<and> x \<notin> fst ` set (clo_captured_env clo)
             \<and> x \<notin> formal_name ` set (ast_args (clo_func_ast clo))
             \<and> env_get (environment st1) x = Some a
             \<and> atomic (val_v (vals (st_heap st1) ! a))
           \<longrightarrow> result = Inr (length (vals (st_heap st1)),
                    st1\<lparr>st_heap := (st_heap st1)\<lparr>vals := vals (st_heap st1)
                       @ [vals (st_heap st1) ! a]\<rparr>\<rparr>)"
    unfolding body using frame by (auto intro!: run_body_return_var)
  from scopes frame lookup probe show ?thesis
    by (intro conjI)
qed

text \<open>
  The witness of C1 as amended: in \<open>scoped_call_state\<close> the calls \<open>foo(7)\<close>, \<open>g(7)\<close> and
  \<open>o.m(7)\<close> of \<open>lambda(p) { return x; }\<close>, which captures \<open>k\<close>, each return the
  caller's \<open>x\<close>.
\<close>

theorem callee_sees_caller_variable_witness:
  "result_value (call_func 2 scoped_call_table ''foo'' [EInt 7] scoped_call_state)
     = Inr \<lparr>val_t = TINT, val_v = PInt 5\<rparr>
   \<and> result_value (call_func 2 scoped_call_table ''g'' [EInt 7] scoped_call_state)
     = Inr \<lparr>val_t = TINT, val_v = PInt 5\<rparr>
   \<and> result_value (call_method 2 scoped_call_table ''o'' ''m'' [EInt 7] scoped_call_state)
     = Inr \<lparr>val_t = TINT, val_v = PInt 5\<rparr>"
proof -
  let ?clo = "\<lparr>clo_captured_env = [(''k'', 3)],
               clo_func_ast = \<lparr>ast_args = [Arg ''p''],
                               ast_statements = [SReturn (Some (EVar ''x''))]\<rparr>,
               clo_type = TCLOSURE\<rparr>"
  have clo: "?clo = clos (st_heap scoped_call_state) ! 0"
    by (simp add: scoped_call_state_def)
  have args: "prepare_params (Suc (Suc 0)) (eval_expr (Suc (Suc 0)) scoped_call_table)
                (ast_args (clo_func_ast ?clo)) [EInt 7]
                (prepare_env_with_closed_variables ?clo base) scoped_call_state
              = Inr (dict_set (dict_set base ''k'' 3) ''p'' 7, scoped_call_state_args)" for base
    by (simp add: prepare_params_def prepare_env_with_closed_variables_def eval_expr_Suc
        eval_expr_step_def alloc_value_def new_value_def deepcopy_atomic
        scoped_call_state_def scoped_call_state_args_def eval_nat_numeral)
  have x: "env_get (environment scoped_call_state_args) ''x'' = Some (Suc 0)"
    by (simp add: scoped_call_state_args_def scoped_call_state_def env_get_def dict_has_def
        dict_get_def)
  have foo: "get_func_by_name scoped_call_table ''foo'' (Some (Suc 0))
               scoped_call_state = Inr (Some 0)"
    by (simp add: get_func_by_name_def scoped_call_table_def dict_get_def)
  have g: "get_func_by_name scoped_call_table ''g'' (Some (Suc 0))
               scoped_call_state = Inr (Some 0)"
    by (simp add: get_func_by_name_def scoped_call_table_def scoped_call_state_def
        env_get_def dict_has_def dict_get_def)
  have m: "method_loop (Suc (Suc 0)) (st_heap scoped_call_state) ''m'' None (Some 4)
             = Inr (Some 5)"
    by (simp add: scoped_call_state_def dict_get_def)
  have o: "env_get (environment scoped_call_state) ''o'' = Some 4"
    by (simp add: scoped_call_state_def env_get_def dict_has_def dict_get_def)
  have recv: "val_t (vals (st_heap scoped_call_state) ! 4) = TOBJECT"
    "vals (st_heap scoped_call_state) ! 5 = \<lparr>val_t = TCLOSURE, val_v = PClo 0\<rparr>"
    by (simp_all add: scoped_call_state_def)
  have atom: "atomic (val_v (vals (st_heap scoped_call_state_args) ! Suc 0))"
    "vals (st_heap scoped_call_state_args) ! Suc 0 = \<lparr>val_t = TINT, val_v = PInt 5\<rparr>"
    by (simp_all add: scoped_call_state_args_def scoped_call_state_def)
  let ?copy = "scoped_call_state_args\<lparr>st_heap := (st_heap scoped_call_state_args)\<lparr>vals :=
                  vals (st_heap scoped_call_state_args)
                    @ [vals (st_heap scoped_call_state_args) ! 1]\<rparr>\<rparr>"
  note probe = callee_sees_caller_variable [OF clo _ args, THEN conjunct2, THEN conjunct2,
      THEN conjunct2, rule_format]
  have "call_func (Suc (Suc 0)) scoped_call_table ''foo'' [EInt 7] scoped_call_state
          = Inr (length (vals (st_heap scoped_call_state_args)), ?copy)"
    by (rule probe [where f = "''foo''" and base = "[]" and x = "''x''"])
       (simp_all add: foo x atom dict_get_def)
  moreover
  have "call_func (Suc (Suc 0)) scoped_call_table ''g'' [EInt 7] scoped_call_state
          = Inr (length (vals (st_heap scoped_call_state_args)), ?copy)"
    by (rule probe [where f = "''g''" and base = "[]" and x = "''x''"])
       (simp_all add: g x atom dict_get_def)
  moreover
  have "call_method (Suc (Suc 0)) scoped_call_table ''o'' ''m'' [EInt 7] scoped_call_state
          = Inr (length (vals (st_heap scoped_call_state_args)), ?copy)"
    by (rule probe [where base = "[(''this'', 4)]" and obj = 4 and objref = "''o''"
          and m = "''m''" and tc = 5 and x = "''x''"])
       (simp_all add: o m recv x atom dict_get_def del: method_loop.simps)
  ultimately show ?thesis
    by (simp add: numeral_2_eq_2 result_value_def atom)
qed

text \<open>
  The counterexample to C1 as stated: \<open>x\<close> is local to \<open>main\<close>, neither captured by \<open>foo\<close>
  nor a parameter of it nor a function, and \<open>foo\<close> returns its value 5 all the same.
\<close>

theorem caller_local_visible_counterexample:
  "returned_value (run_program 5 dynamic_scope_program [])
     = Inr \<lparr>val_t = TINT, val_v = PInt 5\<rparr>"
  supply eval_congs [cong]
  by (simp add: run_program_def dynamic_scope_program_def fuel_simps interp_defs)

end
